theory Spec2Isabelle
  imports Complex_Main "HOL-Library.AList"
begin

section \<open>The SAPT(DFT) driver of psi4: \<open>run_sapt_dft\<close>\<close>

text \<open>
  The source is one Python function, \<open>run_sapt_dft(name, **kwargs)\<close> in
  \<open>psi4/driver/procrouting/sapt/sapt_proc.py\<close>. It reads and writes the process-wide
  option store and variable store of \<open>psi4.core\<close>, relabels the namespace of a scratch
  file, and calls the SCF engine and the SAPT term evaluators. Everything it calls lives
  outside this file; the function itself is straight-line code with guards.

  The embedding makes the ambient state an explicit record \<open>pstate\<close>, every exception a
  value (\<open>Inl\<close>, together with the state in which it was raised, so that what a failed run
  leaves behind can be inspected), and every external collaborator a field of the record
  \<open>engine\<close>, whose functions may fail. Calls that cross the boundary are appended to a
  \<open>trace\<close>. Text written with \<open>core.print_out\<close> is not part of the state that is modelled.
\<close>

subsection \<open>Values\<close>

text \<open>An option value of psi4: a string, a double or a boolean.\<close>

datatype optval = OStr string | ONum real | OBool bool

text \<open>Python truthiness, as used by \<open>if do_delta_hf:\<close> and \<open>if mon_a_shift:\<close>.\<close>

fun truthy :: "optval \<Rightarrow> bool" where
  "truthy (OStr s) = (s \<noteq> [])"
| "truthy (ONum x) = (x \<noteq> 0)"
| "truthy (OBool b) = b"

datatype error =
    ValidationError string
  | TypeError string
  | KeyError string
  | EngineError string

record molecule =
  mol_name :: string
  mol_nfragments :: nat
  mol_real :: "nat list"
  mol_ghost :: "nat list"
  mol_point_group :: string
  mol_fix_orientation :: bool
  mol_fix_com :: bool

record wavefunction =
  wfn_molecule :: molecule
  wfn_energy :: real
  wfn_basisset :: string
  wfn_jk :: nat

text \<open>
  \<open>**kwargs\<close>: the two keywords the function looks at. Everything else in it is passed
  through to the SCF engine untouched.
\<close>

record kwargs =
  kw_ref_wfn :: "wavefunction option"
  kw_molecule :: "molecule option"

text \<open>
  A Python \<open>dict\<close> from labels to numbers, in insertion order: assigning to a key that is
  present keeps its position, a new key goes to the end. \<open>AList.update\<close> does exactly that.
\<close>

type_synonym report = "(string \<times> real) list"

definition dict_update :: "report \<Rightarrow> report \<Rightarrow> report" where
  "dict_update d e = foldl (\<lambda>acc kv. AList.update (fst kv) (snd kv) acc) d e"

subsection \<open>The option store\<close>

text \<open>
  Modelled from the spec: the configuration store (\<open>psi4.core\<close> options) is not among the
  sources. It is a mapping from (group, key) to a value, with the two scopes the calls of
  \<open>run_sapt_dft\<close> distinguish: \<open>set_global_option\<close> writes the global scope,
  \<open>set_local_option\<close> a module's scope, and both mark the entry as changed;
  \<open>get_option\<close> reads the module's entry when that was changed, else the global entry when
  that was changed, else the module's default.
\<close>

record opt_entry =
  opt_value :: optval
  opt_changed :: bool

datatype scope = Global | Local string

type_synonym options = "scope \<times> string \<Rightarrow> opt_entry"

definition opt_get :: "options \<Rightarrow> string \<Rightarrow> string \<Rightarrow> optval" where
  "opt_get os m k =
     (if opt_changed (os (Local m, k)) then opt_value (os (Local m, k))
      else if opt_changed (os (Global, k)) then opt_value (os (Global, k))
      else opt_value (os (Local m, k)))"

definition opt_get_global :: "options \<Rightarrow> string \<Rightarrow> optval" where
  "opt_get_global os k = opt_value (os (Global, k))"

definition opt_has_changed :: "options \<Rightarrow> string \<Rightarrow> string \<Rightarrow> bool" where
  "opt_has_changed os m k = (opt_changed (os (Local m, k)) \<or> opt_changed (os (Global, k)))"

definition opt_set_local :: "string \<Rightarrow> string \<Rightarrow> optval \<Rightarrow> options \<Rightarrow> options" where
  "opt_set_local m k v os = os((Local m, k) := \<lparr>opt_value = v, opt_changed = True\<rparr>)"

definition opt_set_global :: "string \<Rightarrow> optval \<Rightarrow> options \<Rightarrow> options" where
  "opt_set_global k v os = os((Global, k) := \<lparr>opt_value = v, opt_changed = True\<rparr>)"

subsection \<open>The process state and the trace\<close>

datatype event =
    Tstart
  | Tstop
  | PrepareOptions string
  | ChangeFileNamespace nat string string
  | ScfCall string molecule optval
  | ScfReturn string wavefunction
  | Call string
  | HfSummary report real
  | DftSummary report

text \<open>
  \<open>ScfCall banner molecule shift\<close> is logged when \<open>scf_helper\<close> is entered, with the global
  \<open>DFT_GRAC_SHIFT\<close> in force at that moment; \<open>ScfReturn banner wfn\<close> when it returns.
  \<open>Call f\<close> is a call of the evaluator, cache builder or object builder named \<open>f\<close>.
  \<open>HfSummary\<close> and \<open>DftSummary\<close> are the calls of the two summary printers, with the
  mapping (and the delta value) handed to them.
\<close>

record pstate =
  options :: options
  variables :: "string \<Rightarrow> real"
  active_molecule :: molecule
  default_namespace :: string
  trace :: "event list"

subsection \<open>The external collaborators\<close>

text \<open>
  Modelled from the spec: the SCF engine \<open>scf_helper\<close>, the module \<open>sapt_jk_terms\<close>, the
  module \<open>sapt_mp2_terms\<close>, the two summary printers of \<open>sapt_util\<close> and the builders of
  \<open>psi4.core\<close> are not among the sources. Each is a parameter: a function of the arguments
  the source passes (the SCF engine also sees the process state), which may fail. The
  summary printers act on the variable store, which is how the source gets
  \<open>"SAPT(DFT) Delta HF"\<close> back. A cache is a mapping whose content the driver never reads.
\<close>

type_synonym cache = "(string \<times> real) list"

record engine =
  scf_helper :: "string \<Rightarrow> molecule \<Rightarrow> pstate \<Rightarrow> error + wavefunction"
  build_sapt_jk_cache :: "wavefunction \<Rightarrow> wavefunction \<Rightarrow> nat \<Rightarrow> error + cache"
  electrostatics :: "cache \<Rightarrow> error + report"
  exchange :: "cache \<Rightarrow> nat \<Rightarrow> error + report"
  induction_term :: "cache \<Rightarrow> nat \<Rightarrow> optval \<Rightarrow> optval \<Rightarrow> error + report"
  df_fdds_dispersion :: "string \<Rightarrow> string \<Rightarrow> cache \<Rightarrow> error + report"
  df_mp2_fisapt_dispersion :: "wavefunction \<Rightarrow> string \<Rightarrow> string \<Rightarrow> cache \<Rightarrow> error + report"
  df_mp2_sapt_dispersion ::
    "wavefunction \<Rightarrow> wavefunction \<Rightarrow> wavefunction \<Rightarrow> string \<Rightarrow> string \<Rightarrow> cache \<Rightarrow> error + report"
  print_sapt_hf_summary :: "report \<Rightarrow> real \<Rightarrow> (string \<Rightarrow> real) \<Rightarrow> error + (string \<Rightarrow> real)"
  print_sapt_dft_summary :: "report \<Rightarrow> (string \<Rightarrow> real) \<Rightarrow> error + (string \<Rightarrow> real)"
  Wavefunction_build :: "molecule \<Rightarrow> optval \<Rightarrow> error + wavefunction"
  BasisSet_build :: "molecule \<Rightarrow> string \<Rightarrow> optval \<Rightarrow> string \<Rightarrow> optval \<Rightarrow> error + string"

subsection \<open>Statements that read or write the state, and may raise\<close>

type_synonym 'a action = "pstate \<Rightarrow> (error \<times> pstate) + ('a \<times> pstate)"

definition ret :: "'a \<Rightarrow> 'a action" where
  "ret a s = Inr (a, s)"

definition raise :: "error \<Rightarrow> 'a action" where
  "raise e s = Inl (e, s)"

definition bnd :: "'a action \<Rightarrow> ('a \<Rightarrow> 'b action) \<Rightarrow> 'b action" where
  "bnd m f s = (case m s of Inl es \<Rightarrow> Inl es | Inr (a, s') \<Rightarrow> f a s')"

definition get :: "(pstate \<Rightarrow> 'a) \<Rightarrow> 'a action" where
  "get f s = Inr (f s, s)"

definition upd :: "(pstate \<Rightarrow> pstate) \<Rightarrow> unit action" where
  "upd f s = Inr ((), f s)"

definition py_when :: "bool \<Rightarrow> unit action \<Rightarrow> unit action" where
  "py_when b m = (if b then m else ret ())"

definition lift :: "error + 'a \<Rightarrow> 'a action" where
  "lift r s = (case r of Inl e \<Rightarrow> Inl (e, s) | Inr a \<Rightarrow> Inr (a, s))"

definition log_event :: "event \<Rightarrow> unit action" where
  "log_event e = upd (\<lambda>s. s\<lparr>trace := trace s @ [e]\<rparr>)"

text \<open>The calls of \<open>psi4.core\<close> on the option store and the variable store.\<close>

definition get_option :: "string \<Rightarrow> string \<Rightarrow> optval action" where
  "get_option m k = get (\<lambda>s. opt_get (options s) m k)"

definition get_global_option :: "string \<Rightarrow> optval action" where
  "get_global_option k = get (\<lambda>s. opt_get_global (options s) k)"

definition has_option_changed :: "string \<Rightarrow> string \<Rightarrow> bool action" where
  "has_option_changed m k = get (\<lambda>s. opt_has_changed (options s) m k)"

definition set_local_option :: "string \<Rightarrow> string \<Rightarrow> optval \<Rightarrow> unit action" where
  "set_local_option m k v = upd (\<lambda>s. s\<lparr>options := opt_set_local m k v (options s)\<rparr>)"

definition set_global_option :: "string \<Rightarrow> optval \<Rightarrow> unit action" where
  "set_global_option k v = upd (\<lambda>s. s\<lparr>options := opt_set_global k v (options s)\<rparr>)"

definition get_variable :: "string \<Rightarrow> real action" where
  "get_variable k = get (\<lambda>s. variables s k)"

definition set_variable :: "string \<Rightarrow> real \<Rightarrow> unit action" where
  "set_variable k v = upd (\<lambda>s. s\<lparr>variables := (variables s)(k := v)\<rparr>)"

definition set_default_namespace :: "string \<Rightarrow> unit action" where
  "set_default_namespace ns = upd (\<lambda>s. s\<lparr>default_namespace := ns\<rparr>)"

definition change_file_namespace :: "nat \<Rightarrow> string \<Rightarrow> string \<Rightarrow> unit action" where
  "change_file_namespace unit old new = log_event (ChangeFileNamespace unit old new)"

text \<open>
  \<open>p4util.OptionsState(...)\<close>: the constructor records, for every (module, key) pair, the
  global and the module's entry. It changes nothing.
\<close>

type_synonym snapshot = "(string \<times> string \<times> opt_entry \<times> opt_entry) list"

definition OptionsState :: "(string \<times> string) list \<Rightarrow> snapshot action" where
  "OptionsState keys =
     get (\<lambda>s. map (\<lambda>mk. (fst mk, snd mk, options s (Global, snd mk), options s (Local (fst mk), snd mk))) keys)"

text \<open>
  \<open>scf_helper("SCF", molecule=mol, banner=banner, **kwargs)\<close>. A \<open>molecule\<close> keyword still
  present in \<open>kwargs\<close> collides with the explicit one, which Python rejects at the call.
  On return the engine has left its energy in \<open>"CURRENT ENERGY"\<close>.
\<close>

definition call_scf_helper :: "engine \<Rightarrow> string \<Rightarrow> molecule \<Rightarrow> kwargs \<Rightarrow> wavefunction action" where
  "call_scf_helper eng banner mol kw =
     (if kw_molecule kw \<noteq> None
      then raise (TypeError ''scf_helper() got multiple values for keyword argument molecule'')
      else
        bnd (get_global_option ''DFT_GRAC_SHIFT'') (\<lambda>shift.
        bnd (log_event (ScfCall banner mol shift)) (\<lambda>_.
        bnd (get (scf_helper eng banner mol)) (\<lambda>r.
        bnd (lift r) (\<lambda>wfn.
        bnd (log_event (ScfReturn banner wfn)) (\<lambda>_.
        bnd (set_variable ''CURRENT ENERGY'' (wfn_energy wfn)) (\<lambda>_.
        ret wfn)))))))"

text \<open>A call of an evaluator or builder: logged, then its result or its exception.\<close>

definition call_ext :: "string \<Rightarrow> error + 'a \<Rightarrow> 'a action" where
  "call_ext f r = bnd (log_event (Call f)) (\<lambda>_. lift r)"

definition call_hf_summary :: "engine \<Rightarrow> report \<Rightarrow> real \<Rightarrow> unit action" where
  "call_hf_summary eng hf_data dhf_value =
     bnd (log_event (HfSummary hf_data dhf_value)) (\<lambda>_.
     bnd (get (\<lambda>s. print_sapt_hf_summary eng hf_data dhf_value (variables s))) (\<lambda>r.
     bnd (lift r) (\<lambda>vs.
     upd (\<lambda>s. s\<lparr>variables := vs\<rparr>))))"

definition call_dft_summary :: "engine \<Rightarrow> report \<Rightarrow> unit action" where
  "call_dft_summary eng data =
     bnd (log_event (DftSummary data)) (\<lambda>_.
     bnd (get (\<lambda>s. print_sapt_dft_summary eng data (variables s))) (\<lambda>r.
     bnd (lift r) (\<lambda>vs.
     upd (\<lambda>s. s\<lparr>variables := vs\<rparr>))))"

text \<open>\<open>d[k]\<close> on a dict raises \<open>KeyError\<close> when the key is missing.\<close>

definition dict_get :: "report \<Rightarrow> string \<Rightarrow> real action" where
  "dict_get d k = (case map_of d k of None \<Rightarrow> raise (KeyError k) | Some v \<Rightarrow> ret v)"

text \<open>\<open>'%s' % n\<close> for a non-negative integer.\<close>

fun str_nat :: "nat \<Rightarrow> string" where
  "str_nat n =
     (if n < 10 then [''0123456789'' ! n]
      else str_nat (n div 10) @ [''0123456789'' ! (n mod 10)])"

text \<open>\<open>mol.extract_subsets(real, ghost)\<close> followed by \<open>set_name\<close>.\<close>

definition extract_subsets :: "nat \<Rightarrow> nat \<Rightarrow> molecule \<Rightarrow> molecule" where
  "extract_subsets real_frag ghost_frag mol = mol\<lparr>mol_real := [real_frag], mol_ghost := [ghost_frag]\<rparr>"

definition set_name :: "string \<Rightarrow> molecule \<Rightarrow> molecule" where
  "set_name n mol = mol\<lparr>mol_name := n\<rparr>"

text \<open>The guard \<open>if (core.get_option('SCF', 'SCF_TYPE') == 'DF'):\<close>, which the source repeats.\<close>

definition when_df :: "unit action \<Rightarrow> unit action" where
  "when_df m = bnd (get_option ''SCF'' ''SCF_TYPE'') (\<lambda>scf_type. py_when (scf_type = OStr ''DF'') m)"

text \<open>\<open>for k, v in data.items(): core.set_variable(k, v)\<close>\<close>

fun set_variables :: "report \<Rightarrow> unit action" where
  "set_variables [] = ret ()"
| "set_variables (kv # d) = bnd (set_variable (fst kv) (snd kv)) (\<lambda>_. set_variables d)"

subsection \<open>\<open>run_sapt_dft\<close>, in the order of the source\<close>

text \<open>Lines 46 to 57: the option snapshot, the timer, the default algorithm.\<close>

definition sapt_entry :: "snapshot action" where
  "sapt_entry =
     bnd (OptionsState [(''SCF'', ''SCF_TYPE''), (''SCF'', ''REFERENCE''),
                        (''SCF'', ''DFT_FUNCTIONAL''), (''SCF'', ''DFT_GRAC_SHIFT''),
                        (''SCF'', ''SAVE_JK'')]) (\<lambda>optstash.
     bnd (log_event Tstart) (\<lambda>_.
     bnd (has_option_changed ''SCF'' ''SCF_TYPE'') (\<lambda>changed.
     bnd (py_when (\<not> changed) (set_local_option ''SCF'' ''SCF_TYPE'' (OStr ''DF''))) (\<lambda>_.
     bnd (log_event (PrepareOptions ''SAPT'')) (\<lambda>_.
     ret optstash)))))"

text \<open>
  Lines 59 to 76: the dimer. \<open>kwargs.pop('molecule', ...)\<close> removes the keyword only on the
  branch without \<open>ref_wfn\<close>. The copy is put into C1 with orientation and centre of mass
  fixed.
\<close>

definition sapt_geometry :: "kwargs \<Rightarrow> (molecule \<times> kwargs) action" where
  "sapt_geometry kw =
     bnd (case kw_ref_wfn kw of
            None \<Rightarrow>
              bnd (get active_molecule) (\<lambda>active.
              ret (case kw_molecule kw of None \<Rightarrow> active | Some m \<Rightarrow> m, kw\<lparr>kw_molecule := None\<rparr>))
          | Some ref_wfn \<Rightarrow> ret (wfn_molecule ref_wfn, kw)) (\<lambda>(sapt_dimer, kw').
     ret (sapt_dimer\<lparr>mol_point_group := ''c1'', mol_fix_orientation := True, mol_fix_com := True\<rparr>,
          kw'))"

text \<open>Lines 78 to 118: the settings and the three validation gates.\<close>

definition sapt_settings :: "molecule \<Rightarrow> (optval \<times> optval \<times> optval) action" where
  \<open>sapt_settings sapt_dimer =
     bnd (get_option ''SAPT'' ''SAPT_DFT_GRAC_SHIFT_A'') (\<lambda>mon_a_shift.
     bnd (get_option ''SAPT'' ''SAPT_DFT_GRAC_SHIFT_B'') (\<lambda>mon_b_shift.
     bnd (get_option ''SAPT'' ''SAPT_DFT_DO_DHF'') (\<lambda>do_delta_hf.
     bnd (get_option ''SAPT'' ''SAPT_DFT_FUNCTIONAL'') (\<lambda>sapt_dft_functional.
     bnd (py_when (sapt_dft_functional \<noteq> OStr ''HF'' \<and> (mon_a_shift = ONum 0 \<or> mon_b_shift = ONum 0))
            (raise (ValidationError
               ''SAPT(DFT): must set both "SAPT_DFT_GRAC_SHIFT_A" and "B".''))) (\<lambda>_.
     bnd (get_option ''SCF'' ''REFERENCE'') (\<lambda>reference.
     bnd (py_when (reference \<noteq> OStr ''RHF'')
            (raise (ValidationError
               ''SAPT(DFT) currently only supports restricted references.''))) (\<lambda>_.
     bnd (ret (mol_nfragments sapt_dimer)) (\<lambda>nfrag.
     bnd (py_when (nfrag \<noteq> 2)
            (raise (ValidationError
               (''SAPT requires active molecule to have 2 fragments, not '' @ str_nat nfrag @ ''.'')))) (\<lambda>_.
     ret (mon_a_shift, mon_b_shift, do_delta_hf))))))))))\<close>

text \<open>Lines 120 to 131: the monomers, the namespace, the empty report.\<close>

definition sapt_setup :: "molecule \<Rightarrow> (molecule \<times> molecule \<times> report) action" where
  "sapt_setup sapt_dimer =
     bnd (ret (set_name ''monomerA'' (extract_subsets 1 2 sapt_dimer))) (\<lambda>monomerA.
     bnd (ret (set_name ''monomerB'' (extract_subsets 2 1 sapt_dimer))) (\<lambda>monomerB.
     bnd (set_default_namespace ''dimer'') (\<lambda>_.
     bnd (set_global_option ''SAVE_JK'' (OBool True)) (\<lambda>_.
     bnd (when_df (set_global_option ''DF_INTS_IO'' (OStr ''SAVE''))) (\<lambda>_.
     ret (monomerA, monomerB, []))))))"

text \<open>
  Lines 136 to 196, the body of \<open>if do_delta_hf:\<close>. \<open>hf_data\<close> is a dict of its own; of
  the whole pass only \<open>hf_wfn_dimer\<close> and one entry of \<open>data\<close> survive.
\<close>

definition delta_hf_pass ::
  "engine \<Rightarrow> kwargs \<Rightarrow> molecule \<Rightarrow> molecule \<Rightarrow> molecule \<Rightarrow> report \<Rightarrow> (wavefunction \<times> report) action" where
  "delta_hf_pass eng kw sapt_dimer monomerA monomerB data =
     bnd (when_df (set_global_option ''DF_INTS_IO'' (OStr ''SAVE''))) (\<lambda>_.
     bnd (call_scf_helper eng ''SAPT(DFT): delta HF Dimer'' sapt_dimer kw) (\<lambda>hf_wfn_dimer.
     bnd (get_variable ''CURRENT ENERGY'') (\<lambda>e_dimer.
     bnd (ret (AList.update ''HF DIMER'' e_dimer [])) (\<lambda>hf_data.
     bnd (when_df (change_file_namespace 97 ''dimer'' ''monomerA'')) (\<lambda>_.
     bnd (call_scf_helper eng ''SAPT(DFT): delta HF Monomer A'' monomerA kw) (\<lambda>hf_wfn_A.
     bnd (get_variable ''CURRENT ENERGY'') (\<lambda>e_A.
     bnd (ret (AList.update ''HF MONOMER A'' e_A hf_data)) (\<lambda>hf_data.
     bnd (when_df (change_file_namespace 97 ''monomerA'' ''monomerB'')) (\<lambda>_.
     bnd (call_scf_helper eng ''SAPT(DFT): delta HF Monomer B'' monomerB kw) (\<lambda>hf_wfn_B.
     bnd (get_variable ''CURRENT ENERGY'') (\<lambda>e_B.
     bnd (ret (AList.update ''HF MONOMER B'' e_B hf_data)) (\<lambda>hf_data.
     bnd (when_df (change_file_namespace 97 ''monomerB'' ''dimer'')) (\<lambda>_.
     bnd (ret (wfn_jk hf_wfn_B)) (\<lambda>sapt_jk.
     bnd (call_ext ''sapt_jk_terms.build_sapt_jk_cache''
            (build_sapt_jk_cache eng hf_wfn_A hf_wfn_B sapt_jk)) (\<lambda>hf_cache.
     bnd (call_ext ''sapt_jk_terms.electrostatics'' (electrostatics eng hf_cache)) (\<lambda>elst.
     bnd (ret (dict_update hf_data elst)) (\<lambda>hf_data.
     bnd (call_ext ''sapt_jk_terms.exchange'' (exchange eng hf_cache sapt_jk)) (\<lambda>exch.
     bnd (ret (dict_update hf_data exch)) (\<lambda>hf_data.
     bnd (get_option ''SAPT'' ''MAXITER'') (\<lambda>maxiter.
     bnd (get_option ''SAPT'' ''D_CONVERGENCE'') (\<lambda>conv.
     bnd (call_ext ''sapt_jk_terms.induction''
            (induction_term eng hf_cache sapt_jk maxiter conv)) (\<lambda>ind.
     bnd (ret (dict_update hf_data ind)) (\<lambda>hf_data.
     bnd (dict_get hf_data ''HF DIMER'') (\<lambda>e1.
     bnd (dict_get hf_data ''HF MONOMER A'') (\<lambda>e2.
     bnd (dict_get hf_data ''HF MONOMER B'') (\<lambda>e3.
     bnd (ret (e1 - e2 - e3)) (\<lambda>dhf_value.
     bnd (call_hf_summary eng hf_data dhf_value) (\<lambda>_.
     bnd (get_variable ''SAPT(DFT) Delta HF'') (\<lambda>delta.
     ret (hf_wfn_dimer, AList.update ''Delta HF Correction'' delta data))))))))))))))))))))))))))))))"

text \<open>Lines 198 to 205: the wavefunction that will be returned, and the primary settings.\<close>

definition primary_settings :: "engine \<Rightarrow> molecule \<Rightarrow> wavefunction option \<Rightarrow> wavefunction action" where
  "primary_settings eng sapt_dimer hf_wfn_dimer =
     bnd (case hf_wfn_dimer of
            None \<Rightarrow>
              bnd (get_global_option ''BASIS'') (\<lambda>basis.
              call_ext ''core.Wavefunction.build'' (Wavefunction_build eng sapt_dimer basis))
          | Some w \<Rightarrow> ret w) (\<lambda>dimer_wfn.
     bnd (get_option ''SAPT'' ''SAPT_DFT_FUNCTIONAL'') (\<lambda>functional.
     bnd (set_global_option ''DFT_FUNCTIONAL'' functional) (\<lambda>_.
     bnd (set_local_option ''SCF'' ''REFERENCE'' (OStr ''RKS'')) (\<lambda>_.
     ret dimer_wfn))))"

text \<open>Lines 207 to 219: monomer A of the primary pass.\<close>

definition dft_monomer_A ::
  "engine \<Rightarrow> kwargs \<Rightarrow> molecule \<Rightarrow> optval \<Rightarrow> report \<Rightarrow> (wavefunction \<times> report) action" where
  "dft_monomer_A eng kw monomerA mon_a_shift data =
     bnd (when_df (change_file_namespace 97 ''dimer'' ''monomerA'')) (\<lambda>_.
     bnd (py_when (truthy mon_a_shift) (set_global_option ''DFT_GRAC_SHIFT'' mon_a_shift)) (\<lambda>_.
     bnd (set_default_namespace ''monomerA'') (\<lambda>_.
     bnd (call_scf_helper eng ''SAPT(DFT): DFT Monomer A'' monomerA kw) (\<lambda>wfn_A.
     bnd (get_variable ''CURRENT ENERGY'') (\<lambda>e.
     bnd (ret (AList.update ''DFT MONOMERA'' e data)) (\<lambda>data.
     bnd (set_global_option ''DFT_GRAC_SHIFT'' (ONum 0)) (\<lambda>_.
     ret (wfn_A, data))))))))"

text \<open>Lines 221 to 232: monomer B of the primary pass.\<close>

definition dft_monomer_B ::
  "engine \<Rightarrow> kwargs \<Rightarrow> molecule \<Rightarrow> optval \<Rightarrow> report \<Rightarrow> (wavefunction \<times> report) action" where
  "dft_monomer_B eng kw monomerB mon_b_shift data =
     bnd (when_df (change_file_namespace 97 ''monomerA'' ''monomerB'')) (\<lambda>_.
     bnd (py_when (truthy mon_b_shift) (set_global_option ''DFT_GRAC_SHIFT'' mon_b_shift)) (\<lambda>_.
     bnd (set_default_namespace ''monomerB'') (\<lambda>_.
     bnd (call_scf_helper eng ''SAPT(DFT): DFT Monomer B'' monomerB kw) (\<lambda>wfn_B.
     bnd (get_variable ''CURRENT ENERGY'') (\<lambda>e.
     bnd (ret (AList.update ''DFT MONOMERB'' e data)) (\<lambda>data.
     bnd (set_global_option ''DFT_GRAC_SHIFT'' (ONum 0)) (\<lambda>_.
     ret (wfn_B, data))))))))"

text \<open>Lines 250 to 286: the cache and the energy terms of the primary pass.\<close>

definition interaction_terms ::
  "engine \<Rightarrow> molecule \<Rightarrow> wavefunction \<Rightarrow> wavefunction \<Rightarrow> wavefunction \<Rightarrow> report \<Rightarrow> report action" where
  "interaction_terms eng sapt_dimer dimer_wfn wfn_A wfn_B data =
     bnd (ret (wfn_jk wfn_B)) (\<lambda>sapt_jk.
     bnd (call_ext ''sapt_jk_terms.build_sapt_jk_cache''
            (build_sapt_jk_cache eng wfn_A wfn_B sapt_jk)) (\<lambda>cache.
     bnd (call_ext ''sapt_jk_terms.electrostatics'' (electrostatics eng cache)) (\<lambda>elst.
     bnd (ret (dict_update data elst)) (\<lambda>data.
     bnd (call_ext ''sapt_jk_terms.exchange'' (exchange eng cache sapt_jk)) (\<lambda>exch.
     bnd (ret (dict_update data exch)) (\<lambda>data.
     bnd (get_option ''SAPT'' ''MAXITER'') (\<lambda>maxiter.
     bnd (get_option ''SAPT'' ''D_CONVERGENCE'') (\<lambda>conv.
     bnd (call_ext ''sapt_jk_terms.induction''
            (induction_term eng cache sapt_jk maxiter conv)) (\<lambda>ind.
     bnd (ret (dict_update data ind)) (\<lambda>data.
     bnd (ret (wfn_basisset wfn_A)) (\<lambda>primary_basis.
     bnd (get_option ''DFMP2'' ''DF_BASIS_MP2'') (\<lambda>df_basis_mp2.
     bnd (get_global_option ''BASIS'') (\<lambda>basis.
     bnd (call_ext ''core.BasisSet.build''
            (BasisSet_build eng sapt_dimer ''DF_BASIS_MP2'' df_basis_mp2 ''RIFIT'' basis)) (\<lambda>aux_basis.
     bnd (call_ext ''sapt_mp2_terms.df_fdds_dispersion''
            (df_fdds_dispersion eng primary_basis aux_basis cache)) (\<lambda>fdds_disp.
     bnd (ret (dict_update data fdds_disp)) (\<lambda>data.
     bnd (get_option ''SAPT'' ''SAPT_DFT_MP2_DISP_ALG'') (\<lambda>alg.
     bnd (if alg = OStr ''FISAPT''
          then call_ext ''sapt_mp2_terms.df_mp2_fisapt_dispersion''
                 (df_mp2_fisapt_dispersion eng wfn_A primary_basis aux_basis cache)
          else call_ext ''sapt_mp2_terms.df_mp2_sapt_dispersion''
                 (df_mp2_sapt_dispersion eng dimer_wfn wfn_A wfn_B primary_basis aux_basis cache)) (\<lambda>mp2_disp.
     ret (dict_update data mp2_disp)))))))))))))))))))"

text \<open>Lines 288 to 296: the summary, the copy into the variable store, the timer.\<close>

definition publish :: "engine \<Rightarrow> report \<Rightarrow> unit action" where
  "publish eng data =
     bnd (call_dft_summary eng data) (\<lambda>_.
     bnd (set_variables data) (\<lambda>_.
     log_event Tstop))"

text \<open>Lines 133 to 298: the two passes, the terms, the publication, the return value.\<close>

definition sapt_passes ::
  "engine \<Rightarrow> kwargs \<Rightarrow> molecule \<Rightarrow> molecule \<Rightarrow> molecule \<Rightarrow> optval \<Rightarrow> optval \<Rightarrow> optval \<Rightarrow> report \<Rightarrow>
   wavefunction action" where
  "sapt_passes eng kwargs sapt_dimer monomerA monomerB mon_a_shift mon_b_shift do_delta_hf data =
     bnd (if truthy do_delta_hf
          then bnd (delta_hf_pass eng kwargs sapt_dimer monomerA monomerB data)
                 (\<lambda>(hf_wfn_dimer, data). ret (Some hf_wfn_dimer, data))
          else ret (None, data)) (\<lambda>(hf_wfn_dimer, data).
     bnd (primary_settings eng sapt_dimer hf_wfn_dimer) (\<lambda>dimer_wfn.
     bnd (dft_monomer_A eng kwargs monomerA mon_a_shift data) (\<lambda>(wfn_A, data).
     bnd (dft_monomer_B eng kwargs monomerB mon_b_shift data) (\<lambda>(wfn_B, data).
     bnd (interaction_terms eng sapt_dimer dimer_wfn wfn_A wfn_B data) (\<lambda>data.
     bnd (publish eng data) (\<lambda>_.
     ret dimer_wfn))))))"

text \<open>The whole function. \<open>optstash\<close> is bound at entry and not mentioned again.\<close>

definition run_sapt_dft :: "engine \<Rightarrow> string \<Rightarrow> kwargs \<Rightarrow> wavefunction action" where
  "run_sapt_dft eng name kwargs =
     bnd sapt_entry (\<lambda>optstash.
     bnd (sapt_geometry kwargs) (\<lambda>(sapt_dimer, kwargs).
     bnd (sapt_settings sapt_dimer) (\<lambda>(mon_a_shift, mon_b_shift, do_delta_hf).
     bnd (sapt_setup sapt_dimer) (\<lambda>(monomerA, monomerB, data).
     sapt_passes eng kwargs sapt_dimer monomerA monomerB mon_a_shift mon_b_shift do_delta_hf data))))"

subsection \<open>What a run leaves behind\<close>

text \<open>The outcome of a statement: whether it returned, what it returned, the state it left.\<close>

definition succeeded :: "(error \<times> pstate) + ('a \<times> pstate) \<Rightarrow> bool" where
  "succeeded r = (case r of Inl _ \<Rightarrow> False | Inr _ \<Rightarrow> True)"

definition returned :: "(error \<times> pstate) + ('a \<times> pstate) \<Rightarrow> 'a option" where
  "returned r = (case r of Inl _ \<Rightarrow> None | Inr as \<Rightarrow> Some (fst as))"

definition final_state :: "(error \<times> pstate) + ('a \<times> pstate) \<Rightarrow> pstate" where
  "final_state r = (case r of Inl es \<Rightarrow> snd es | Inr as \<Rightarrow> snd as)"

text \<open>The events a run appended to the trace it started with.\<close>

definition new_events :: "pstate \<Rightarrow> pstate \<Rightarrow> event list" where
  "new_events s s' = drop (length (trace s)) (trace s')"

text \<open>
  Views of a trace. \<open>steps\<close> keeps what the stage scheduler does: the sub-calculations
  (banner and name of the molecule) and the namespace relabelings.
\<close>

datatype step = SubCalc string string | Relabel string string

fun step_of :: "event \<Rightarrow> step list" where
  "step_of (ScfCall banner mol shift) = [SubCalc banner (mol_name mol)]"
| "step_of (ChangeFileNamespace unit old new) = [Relabel old new]"
| "step_of _ = []"

definition steps :: "event list \<Rightarrow> step list" where
  "steps tr = concat (map step_of tr)"

fun scf_banner_of :: "event \<Rightarrow> string list" where
  "scf_banner_of (ScfCall banner mol shift) = [banner]"
| "scf_banner_of _ = []"

definition scf_banners :: "event list \<Rightarrow> string list" where
  "scf_banners tr = concat (map scf_banner_of tr)"

fun shift_seen_of :: "event \<Rightarrow> (string \<times> optval) list" where
  "shift_seen_of (ScfCall banner mol shift) = [(banner, shift)]"
| "shift_seen_of _ = []"

definition shifts_seen :: "event list \<Rightarrow> (string \<times> optval) list" where
  "shifts_seen tr = concat (map shift_seen_of tr)"

fun scf_return_of :: "event \<Rightarrow> (string \<times> wavefunction) list" where
  "scf_return_of (ScfReturn banner wfn) = [(banner, wfn)]"
| "scf_return_of _ = []"

definition scf_returns :: "event list \<Rightarrow> (string \<times> wavefunction) list" where
  "scf_returns tr = concat (map scf_return_of tr)"

fun relabel_of :: "event \<Rightarrow> event list" where
  "relabel_of (ChangeFileNamespace unit old new) = [ChangeFileNamespace unit old new]"
| "relabel_of _ = []"

definition relabels :: "event list \<Rightarrow> event list" where
  "relabels tr = concat (map relabel_of tr)"

fun call_of :: "event \<Rightarrow> string list" where
  "call_of (Call f) = [f]"
| "call_of _ = []"

definition calls :: "event list \<Rightarrow> string list" where
  "calls tr = concat (map call_of tr)"

fun hf_summary_of :: "event \<Rightarrow> (report \<times> real) list" where
  "hf_summary_of (HfSummary hf_data dhf_value) = [(hf_data, dhf_value)]"
| "hf_summary_of _ = []"

definition hf_summaries :: "event list \<Rightarrow> (report \<times> real) list" where
  "hf_summaries tr = concat (map hf_summary_of tr)"

fun report_of :: "event \<Rightarrow> report list" where
  "report_of (DftSummary data) = [data]"
| "report_of _ = []"

definition reports :: "event list \<Rightarrow> report list" where
  "reports tr = concat (map report_of tr)"

subsection \<open>Names for what the driver computes on the way\<close>

text \<open>The option store after lines 54 and 55.\<close>

definition alter_default :: "options \<Rightarrow> options" where
  "alter_default os =
     (if opt_has_changed os ''SCF'' ''SCF_TYPE'' then os
      else opt_set_local ''SCF'' ''SCF_TYPE'' (OStr ''DF'') os)"

text \<open>The state in which validation takes place (after line 57).\<close>

definition entered :: "pstate \<Rightarrow> pstate" where
  "entered s = s\<lparr>options := alter_default (options s),
                 trace := trace s @ [Tstart, PrepareOptions ''SAPT'']\<rparr>"

text \<open>What the guarded relabeling, the guarded \<open>DF_INTS_IO\<close> and the guarded shift amount to.\<close>

definition relabel_events :: "options \<Rightarrow> string \<Rightarrow> string \<Rightarrow> event list" where
  "relabel_events os old new =
     (if opt_get os ''SCF'' ''SCF_TYPE'' = OStr ''DF'' then [ChangeFileNamespace 97 old new] else [])"

definition relabel_steps :: "options \<Rightarrow> string \<Rightarrow> string \<Rightarrow> step list" where
  "relabel_steps os old new =
     (if opt_get os ''SCF'' ''SCF_TYPE'' = OStr ''DF'' then [Relabel old new] else [])"

definition save_df_ints :: "options \<Rightarrow> options" where
  "save_df_ints os =
     (if opt_get os ''SCF'' ''SCF_TYPE'' = OStr ''DF''
      then opt_set_global ''DF_INTS_IO'' (OStr ''SAVE'') os else os)"

definition apply_shift :: "optval \<Rightarrow> options \<Rightarrow> options" where
  "apply_shift v os = (if truthy v then opt_set_global ''DFT_GRAC_SHIFT'' v os else os)"

text \<open>The dimer of lines 59 to 76, the keywords left after it, and the two monomers.\<close>

definition the_dimer :: "kwargs \<Rightarrow> pstate \<Rightarrow> molecule" where
  "the_dimer kw s =
     (case kw_ref_wfn kw of
        None \<Rightarrow> (case kw_molecule kw of None \<Rightarrow> active_molecule s | Some m \<Rightarrow> m)
      | Some ref_wfn \<Rightarrow> wfn_molecule ref_wfn)
     \<lparr>mol_point_group := ''c1'', mol_fix_orientation := True, mol_fix_com := True\<rparr>"

definition the_kwargs :: "kwargs \<Rightarrow> kwargs" where
  "the_kwargs kw = (case kw_ref_wfn kw of None \<Rightarrow> kw\<lparr>kw_molecule := None\<rparr> | Some ref_wfn \<Rightarrow> kw)"

definition monomerA_of :: "molecule \<Rightarrow> molecule" where
  "monomerA_of d = set_name ''monomerA'' (extract_subsets 1 2 d)"

definition monomerB_of :: "molecule \<Rightarrow> molecule" where
  "monomerB_of d = set_name ''monomerB'' (extract_subsets 2 1 d)"

text \<open>The state in which the first sub-calculation starts (after line 131).\<close>

definition prepared :: "pstate \<Rightarrow> pstate" where
  "prepared s =
     s\<lparr>options := save_df_ints (opt_set_global ''SAVE_JK'' (OBool True) (alter_default (options s))),
       default_namespace := ''dimer'',
       trace := trace s @ [Tstart, PrepareOptions ''SAPT'']\<rparr>"

text \<open>The dict \<open>hf_data\<close> at line 191.\<close>

definition hf_mapping :: "real \<Rightarrow> real \<Rightarrow> real \<Rightarrow> report \<Rightarrow> report \<Rightarrow> report \<Rightarrow> report" where
  "hf_mapping ed ea eb elst exch ind =
     dict_update (dict_update (dict_update
       [(''HF DIMER'', ed), (''HF MONOMER A'', ea), (''HF MONOMER B'', eb)] elst) exch) ind"

text \<open>The name of the MP2 dispersion evaluator that line 281 selects.\<close>

definition mp2_evaluator :: "optval \<Rightarrow> string" where
  "mp2_evaluator alg =
     (if alg = OStr ''FISAPT'' then ''sapt_mp2_terms.df_mp2_fisapt_dispersion''
      else ''sapt_mp2_terms.df_mp2_sapt_dispersion'')"

text \<open>The exception of lines 109 to 118, if any, as a function of the options and the dimer.\<close>

definition validation_failure :: "options \<Rightarrow> molecule \<Rightarrow> error option" where
  \<open>validation_failure os d =
     (if opt_get os ''SAPT'' ''SAPT_DFT_FUNCTIONAL'' \<noteq> OStr ''HF'' \<and>
         (opt_get os ''SAPT'' ''SAPT_DFT_GRAC_SHIFT_A'' = ONum 0 \<or>
          opt_get os ''SAPT'' ''SAPT_DFT_GRAC_SHIFT_B'' = ONum 0)
      then Some (ValidationError ''SAPT(DFT): must set both "SAPT_DFT_GRAC_SHIFT_A" and "B".'')
      else if opt_get os ''SCF'' ''REFERENCE'' \<noteq> OStr ''RHF''
      then Some (ValidationError ''SAPT(DFT) currently only supports restricted references.'')
      else if mol_nfragments d \<noteq> 2
      then Some (ValidationError
             (''SAPT requires active molecule to have 2 fragments, not '' @ str_nat (mol_nfragments d) @ ''.''))
      else None)\<close>

text \<open>
  The contract of the term evaluators on their labels, as far as the auxiliary pass needs
  it: a result does not use the three labels under which the driver has just stored the
  SCF energies.
\<close>

definition hf_label_free :: "report \<Rightarrow> bool" where
  "hf_label_free r =
     (''HF DIMER'' \<notin> fst ` set r \<and> ''HF MONOMER A'' \<notin> fst ` set r \<and> ''HF MONOMER B'' \<notin> fst ` set r)"

text \<open>A property of the state that a statement keeps, whether it returns or raises.\<close>

definition keeps :: "(pstate \<Rightarrow> bool) \<Rightarrow> 'a action \<Rightarrow> bool" where
  "keeps P m = (\<forall>s. P s \<longrightarrow> P (final_state (m s)))"

subsection \<open>A concrete run\<close>

text \<open>
  A water-dimer-like input with two fragments, the options as a user who asks for
  SAPT(DFT) with PBE0 and both shifts would have them (\<open>SCF_TYPE\<close> untouched, at its
  default \<open>PK\<close>), and an engine whose SCF energies are 10, 4 and 3 in the auxiliary pass
  and 5 and 6 in the primary pass. The variants change one thing each.
\<close>

definition unset :: "optval \<Rightarrow> opt_entry" where
  "unset v = \<lparr>opt_value = v, opt_changed = False\<rparr>"

definition user_set :: "optval \<Rightarrow> opt_entry" where
  "user_set v = \<lparr>opt_value = v, opt_changed = True\<rparr>"

definition demo_options :: options where
  "demo_options =
     (\<lambda>_. unset (OStr []))
       ((Local ''SCF'', ''SCF_TYPE'') := unset (OStr ''PK''),
        (Local ''SCF'', ''REFERENCE'') := unset (OStr ''RHF''),
        (Local ''SCF'', ''DFT_GRAC_SHIFT'') := unset (ONum 0),
        (Local ''SCF'', ''SAVE_JK'') := unset (OBool False),
        (Global, ''DFT_GRAC_SHIFT'') := unset (ONum 0),
        (Global, ''SAVE_JK'') := unset (OBool False),
        (Global, ''BASIS'') := user_set (OStr ''CC-PVDZ''),
        (Local ''SAPT'', ''SAPT_DFT_GRAC_SHIFT_A'') := user_set (ONum (1 / 4)),
        (Local ''SAPT'', ''SAPT_DFT_GRAC_SHIFT_B'') := user_set (ONum (1 / 8)),
        (Local ''SAPT'', ''SAPT_DFT_DO_DHF'') := unset (OBool True),
        (Local ''SAPT'', ''SAPT_DFT_FUNCTIONAL'') := user_set (OStr ''PBE0''),
        (Local ''SAPT'', ''SAPT_DFT_MP2_DISP_ALG'') := unset (OStr ''SAPT''))"

definition demo_dimer :: molecule where
  "demo_dimer =
     \<lparr>mol_name = ''water_dimer'', mol_nfragments = 2, mol_real = [1, 2], mol_ghost = [],
      mol_point_group = ''cs'', mol_fix_orientation = False, mol_fix_com = False\<rparr>"

definition demo_state :: pstate where
  "demo_state =
     \<lparr>options = demo_options, variables = (\<lambda>_. 0), active_molecule = demo_dimer,
      default_namespace = [], trace = []\<rparr>"

definition demo_kwargs :: kwargs where
  "demo_kwargs = \<lparr>kw_ref_wfn = None, kw_molecule = None\<rparr>"

definition demo_scf :: "string \<Rightarrow> molecule \<Rightarrow> pstate \<Rightarrow> error + wavefunction" where
  "demo_scf banner mol s =
     Inr \<lparr>wfn_molecule = mol,
          wfn_energy =
            (if banner = ''SAPT(DFT): delta HF Dimer'' then 10
             else if banner = ''SAPT(DFT): delta HF Monomer A'' then 4
             else if banner = ''SAPT(DFT): delta HF Monomer B'' then 3
             else if banner = ''SAPT(DFT): DFT Monomer A'' then 5
             else 6),
          wfn_basisset = ''CC-PVDZ'', wfn_jk = 1\<rparr>"

definition demo_engine :: engine where
  "demo_engine =
     \<lparr>scf_helper = demo_scf,
      build_sapt_jk_cache = (\<lambda>wfn_A wfn_B jk. Inr [(''E_A'', wfn_energy wfn_A), (''E_B'', wfn_energy wfn_B)]),
      electrostatics = (\<lambda>cache. Inr [(''Elst10,r'', - 2)]),
      exchange = (\<lambda>cache jk. Inr [(''Exch10'', 3), (''Exch10(S^2)'', 3)]),
      induction_term = (\<lambda>cache jk maxiter conv. Inr [(''Ind20,r'', - 1)]),
      df_fdds_dispersion = (\<lambda>primary aux cache. Inr [(''Disp20'', - 1)]),
      df_mp2_fisapt_dispersion = (\<lambda>wfn_A primary aux cache. Inr [(''Disp20 (MP2, FISAPT)'', - 1)]),
      df_mp2_sapt_dispersion = (\<lambda>dimer_wfn wfn_A wfn_B primary aux cache. Inr [(''Disp20 (MP2)'', - 1)]),
      print_sapt_hf_summary = (\<lambda>hf_data dhf vs. Inr (vs(''SAPT(DFT) Delta HF'' := dhf - 0))),
      print_sapt_dft_summary = (\<lambda>data vs. Inr vs),
      Wavefunction_build =
        (\<lambda>mol basis. Inr \<lparr>wfn_molecule = mol, wfn_energy = 0, wfn_basisset = ''CC-PVDZ'', wfn_jk = 0\<rparr>),
      BasisSet_build = (\<lambda>mol key target fitrole basis. Inr ''CC-PVDZ-RI'')\<rparr>"

text \<open>The same input with the auxiliary pass switched off.\<close>

definition demo_options_no_dhf :: options where
  "demo_options_no_dhf = demo_options((Local ''SAPT'', ''SAPT_DFT_DO_DHF'') := user_set (OBool False))"

definition demo_state_no_dhf :: pstate where
  "demo_state_no_dhf = demo_state\<lparr>options := demo_options_no_dhf\<rparr>"

text \<open>The same input with the shift of monomer A left at its default.\<close>

definition demo_options_no_shift :: options where
  "demo_options_no_shift = demo_options((Local ''SAPT'', ''SAPT_DFT_GRAC_SHIFT_A'') := unset (ONum 0))"

definition demo_state_no_shift :: pstate where
  "demo_state_no_shift = demo_state\<lparr>options := demo_options_no_shift\<rparr>"

text \<open>The same input with \<open>SCF_TYPE\<close> set to \<open>PK\<close> by the user.\<close>

definition demo_options_pk :: options where
  "demo_options_pk = demo_options((Local ''SCF'', ''SCF_TYPE'') := user_set (OStr ''PK''))"

definition demo_state_pk :: pstate where
  "demo_state_pk = demo_state\<lparr>options := demo_options_pk\<rparr>"

text \<open>A molecule of three fragments, passed as the \<open>molecule\<close> keyword.\<close>

definition demo_kwargs_trimer :: kwargs where
  "demo_kwargs_trimer = \<lparr>kw_ref_wfn = None, kw_molecule = Some (demo_dimer\<lparr>mol_nfragments := 3\<rparr>)\<rparr>"

text \<open>An engine whose SCF fails on monomer A of the primary pass.\<close>

definition demo_engine_failing :: engine where
  "demo_engine_failing =
     demo_engine\<lparr>scf_helper :=
       (\<lambda>banner mol s.
          if banner = ''SAPT(DFT): DFT Monomer A'' then Inl (EngineError ''Could not converge SCF iterations'')
          else demo_scf banner mol s)\<rparr>"

subsection \<open>What a run that returns has done\<close>

text \<open>
  The events of the auxiliary pass and of the primary pass, the option store at the end
  and the report, as functions of what the engine returned. The lemma \<open>run_success\<close>
  below shows that a run that returns has produced exactly these.
\<close>

definition aux_events ::
  "options \<Rightarrow> optval \<Rightarrow> molecule \<Rightarrow> molecule \<Rightarrow> molecule \<Rightarrow>
   wavefunction \<Rightarrow> wavefunction \<Rightarrow> wavefunction \<Rightarrow> report \<Rightarrow> real \<Rightarrow> event list" where
  "aux_events os shift d mA mB w wa wb hf_data dhf =
     [ScfCall ''SAPT(DFT): delta HF Dimer'' d shift, ScfReturn ''SAPT(DFT): delta HF Dimer'' w] @
     relabel_events os ''dimer'' ''monomerA'' @
     [ScfCall ''SAPT(DFT): delta HF Monomer A'' mA shift, ScfReturn ''SAPT(DFT): delta HF Monomer A'' wa] @
     relabel_events os ''monomerA'' ''monomerB'' @
     [ScfCall ''SAPT(DFT): delta HF Monomer B'' mB shift, ScfReturn ''SAPT(DFT): delta HF Monomer B'' wb] @
     relabel_events os ''monomerB'' ''dimer'' @
     [Call ''sapt_jk_terms.build_sapt_jk_cache'', Call ''sapt_jk_terms.electrostatics'',
      Call ''sapt_jk_terms.exchange'', Call ''sapt_jk_terms.induction'', HfSummary hf_data dhf]"

definition primary_events ::
  "options \<Rightarrow> optval \<Rightarrow> optval \<Rightarrow> molecule \<Rightarrow> molecule \<Rightarrow> wavefunction \<Rightarrow> wavefunction \<Rightarrow>
   optval \<Rightarrow> report \<Rightarrow> event list" where
  "primary_events os shift_a shift_b mA mB wA wB alg data =
     relabel_events os ''dimer'' ''monomerA'' @
     [ScfCall ''SAPT(DFT): DFT Monomer A'' mA shift_a, ScfReturn ''SAPT(DFT): DFT Monomer A'' wA] @
     relabel_events os ''monomerA'' ''monomerB'' @
     [ScfCall ''SAPT(DFT): DFT Monomer B'' mB shift_b, ScfReturn ''SAPT(DFT): DFT Monomer B'' wB] @
     [Call ''sapt_jk_terms.build_sapt_jk_cache'', Call ''sapt_jk_terms.electrostatics'',
      Call ''sapt_jk_terms.exchange'', Call ''sapt_jk_terms.induction'',
      Call ''core.BasisSet.build'', Call ''sapt_mp2_terms.df_fdds_dispersion'',
      Call (mp2_evaluator alg), DftSummary data, Tstop]"

definition final_options :: "options \<Rightarrow> options" where
  "final_options os =
     opt_set_global ''DFT_GRAC_SHIFT'' (ONum 0)
       (apply_shift (opt_get os ''SAPT'' ''SAPT_DFT_GRAC_SHIFT_B'')
         (opt_set_global ''DFT_GRAC_SHIFT'' (ONum 0)
           (apply_shift (opt_get os ''SAPT'' ''SAPT_DFT_GRAC_SHIFT_A'')
             (opt_set_local ''SCF'' ''REFERENCE'' (OStr ''RKS'')
               (opt_set_global ''DFT_FUNCTIONAL'' (opt_get os ''SAPT'' ''SAPT_DFT_FUNCTIONAL'')
                 (save_df_ints (opt_set_global ''SAVE_JK'' (OBool True) (alter_default os))))))))"

definition final_report ::
  "report \<Rightarrow> real \<Rightarrow> real \<Rightarrow> report \<Rightarrow> report \<Rightarrow> report \<Rightarrow> report \<Rightarrow> report \<Rightarrow> report" where
  "final_report data0 eA eB elst exch ind fdds mp2 =
     dict_update (dict_update (dict_update (dict_update (dict_update
       (AList.update ''DFT MONOMERB'' eB (AList.update ''DFT MONOMERA'' eA data0))
       elst) exch) ind) fdds) mp2"

definition publish_all :: "(string \<Rightarrow> real) \<Rightarrow> report \<Rightarrow> (string \<Rightarrow> real)" where
  "publish_all vs data = foldl (\<lambda>vs kv. vs(fst kv := snd kv)) vs data"

section \<open>Reasoning about statements\<close>

subsection \<open>Sequencing\<close>

lemma bnd_ret: "bnd (ret a) f s = f a s"
  by (simp add: bnd_def ret_def)

lemma bnd_raise: "bnd (raise e) f s = Inl (e, s)"
  by (simp add: bnd_def raise_def)

lemma bnd_get: "bnd (get g) f s = f (g s) s"
  by (simp add: bnd_def get_def)

lemma bnd_upd: "bnd (upd g) f s = f () (g s)"
  by (simp add: bnd_def upd_def)

lemma bnd_lift: "bnd (lift r) f s = (case r of Inl e \<Rightarrow> Inl (e, s) | Inr a \<Rightarrow> f a s)"
  by (simp add: bnd_def lift_def split: sum.splits)

lemma bnd_assoc: "bnd (bnd m f) g s = bnd m (\<lambda>a. bnd (f a) g) s"
  by (simp add: bnd_def split: sum.splits prod.splits)

lemma bnd_case_option:
  "bnd (case x of None \<Rightarrow> a | Some y \<Rightarrow> b y) f s =
     (case x of None \<Rightarrow> bnd a f s | Some y \<Rightarrow> bnd (b y) f s)"
  by (simp split: option.splits)

lemma bnd_when: "bnd (py_when b m) f s = (if b then bnd m f s else f () s)"
  by (simp add: py_when_def bnd_ret)

lemma ret_app: "ret a s = Inr (a, s)"
  by (simp add: ret_def)

lemma raise_app: "raise e s = Inl (e, s)"
  by (simp add: raise_def)

lemma upd_app: "upd g s = Inr ((), g s)"
  by (simp add: upd_def)

lemma lift_app: "lift r s = (case r of Inl e \<Rightarrow> Inl (e, s) | Inr a \<Rightarrow> Inr (a, s))"
  by (simp add: lift_def)

lemmas action_simps =
  bnd_ret bnd_raise bnd_get bnd_upd bnd_lift bnd_assoc bnd_case_option bnd_when
  ret_app raise_app upd_app lift_app

lemma bnd_Inr_iff:
  "bnd m f s = Inr y \<longleftrightarrow> (\<exists>a s1. m s = Inr (a, s1) \<and> f a s1 = Inr y)"
  by (auto simp add: bnd_def split: sum.splits)

subsection \<open>The option store\<close>

lemmas opt_defs = opt_get_def opt_has_changed_def opt_set_local_def opt_set_global_def opt_get_global_def

lemma opt_get_set_global:
  "k \<noteq> k' \<Longrightarrow> opt_get (opt_set_global k v os) m k' = opt_get os m k'"
  by (simp add: opt_defs)

lemma opt_get_set_local_other:
  "m \<noteq> m' \<or> k \<noteq> k' \<Longrightarrow> opt_get (opt_set_local m k v os) m' k' = opt_get os m' k'"
  by (auto simp add: opt_defs)

lemma opt_get_set_local_same: "opt_get (opt_set_local m k v os) m k = v"
  by (simp add: opt_defs)

lemma opt_get_global_set_global:
  "opt_get_global (opt_set_global k v os) k' = (if k = k' then v else opt_get_global os k')"
  by (simp add: opt_defs)

lemma opt_get_global_set_local: "opt_get_global (opt_set_local m k v os) k' = opt_get_global os k'"
  by (simp add: opt_defs)

lemma opt_get_save_df_ints:
  "k \<noteq> ''DF_INTS_IO'' \<Longrightarrow> opt_get (save_df_ints os) m k = opt_get os m k"
  by (simp add: save_df_ints_def opt_get_set_global)

lemma opt_get_global_save_df_ints:
  "k \<noteq> ''DF_INTS_IO'' \<Longrightarrow> opt_get_global (save_df_ints os) k = opt_get_global os k"
  by (simp add: save_df_ints_def opt_get_global_set_global)

lemma opt_get_apply_shift:
  "k \<noteq> ''DFT_GRAC_SHIFT'' \<Longrightarrow> opt_get (apply_shift v os) m k = opt_get os m k"
  by (simp add: apply_shift_def opt_get_set_global)

lemma opt_get_global_apply_shift:
  "opt_get_global (apply_shift v os) k =
     (if truthy v \<and> k = ''DFT_GRAC_SHIFT'' then v else opt_get_global os k)"
  by (simp add: apply_shift_def opt_get_global_set_global)

lemma opt_get_alter_default_other:
  "m \<noteq> ''SCF'' \<or> k \<noteq> ''SCF_TYPE'' \<Longrightarrow> opt_get (alter_default os) m k = opt_get os m k"
  by (auto simp add: alter_default_def opt_get_set_local_other)

lemma opt_get_global_alter_default: "opt_get_global (alter_default os) k = opt_get_global os k"
  by (simp add: alter_default_def opt_get_global_set_local)

lemma opt_get_alter_default_scf_type:
  "opt_get (alter_default os) ''SCF'' ''SCF_TYPE'' =
     (if opt_has_changed os ''SCF'' ''SCF_TYPE'' then opt_get os ''SCF'' ''SCF_TYPE'' else OStr ''DF'')"
  by (simp add: alter_default_def opt_get_set_local_same)

lemma relabel_events_frame:
  "relabel_events (save_df_ints os) old new = relabel_events os old new"
  "relabel_events (apply_shift v os) old new = relabel_events os old new"
  "k \<noteq> ''SCF_TYPE'' \<Longrightarrow> relabel_events (opt_set_global k v os) old new = relabel_events os old new"
  "m \<noteq> ''SCF'' \<or> k \<noteq> ''SCF_TYPE'' \<Longrightarrow>
     relabel_events (opt_set_local m k v os) old new = relabel_events os old new"
  by (simp_all add: relabel_events_def opt_get_save_df_ints opt_get_apply_shift opt_get_set_global
        opt_get_set_local_other)

lemmas opt_simps =
  opt_get_set_global opt_get_set_local_other opt_get_set_local_same opt_get_global_set_global
  opt_get_global_set_local opt_get_save_df_ints opt_get_global_save_df_ints opt_get_apply_shift
  opt_get_global_apply_shift opt_get_alter_default_other opt_get_global_alter_default
  relabel_events_frame

subsection \<open>The calls of the core, one step each\<close>

lemma bnd_when_df_relabel:
  "bnd (when_df (change_file_namespace 97 old new)) f s =
     f () (s\<lparr>trace := trace s @ relabel_events (options s) old new\<rparr>)"
  by (simp add: when_df_def change_file_namespace_def log_event_def get_option_def relabel_events_def
        action_simps)

lemma bnd_when_df_ints:
  "bnd (when_df (set_global_option ''DF_INTS_IO'' (OStr ''SAVE''))) f s =
     f () (s\<lparr>options := save_df_ints (options s)\<rparr>)"
  by (simp add: when_df_def set_global_option_def get_option_def save_df_ints_def action_simps)

lemma bnd_when_shift:
  "bnd (py_when (truthy v) (set_global_option ''DFT_GRAC_SHIFT'' v)) f s =
     f () (s\<lparr>options := apply_shift v (options s)\<rparr>)"
  by (simp add: set_global_option_def apply_shift_def action_simps)

lemma bnd_log_event: "bnd (log_event e) f s = f () (s\<lparr>trace := trace s @ [e]\<rparr>)"
  by (simp add: log_event_def action_simps)

lemma log_event_app: "log_event e s = Inr ((), s\<lparr>trace := trace s @ [e]\<rparr>)"
  by (simp add: log_event_def action_simps)

lemma bnd_get_option: "bnd (get_option m k) f s = f (opt_get (options s) m k) s"
  by (simp add: get_option_def action_simps)

lemma bnd_get_global_option: "bnd (get_global_option k) f s = f (opt_get_global (options s) k) s"
  by (simp add: get_global_option_def action_simps)

lemma bnd_has_option_changed:
  "bnd (has_option_changed m k) f s = f (opt_has_changed (options s) m k) s"
  by (simp add: has_option_changed_def action_simps)

lemma bnd_set_local_option:
  "bnd (set_local_option m k v) f s = f () (s\<lparr>options := opt_set_local m k v (options s)\<rparr>)"
  by (simp add: set_local_option_def action_simps)

lemma bnd_set_global_option:
  "bnd (set_global_option k v) f s = f () (s\<lparr>options := opt_set_global k v (options s)\<rparr>)"
  by (simp add: set_global_option_def action_simps)

lemma bnd_get_variable: "bnd (get_variable k) f s = f (variables s k) s"
  by (simp add: get_variable_def action_simps)

lemma bnd_set_variable:
  "bnd (set_variable k v) f s = f () (s\<lparr>variables := (variables s)(k := v)\<rparr>)"
  by (simp add: set_variable_def action_simps)

lemma bnd_set_default_namespace:
  "bnd (set_default_namespace ns) f s = f () (s\<lparr>default_namespace := ns\<rparr>)"
  by (simp add: set_default_namespace_def action_simps)

lemma bnd_call_ext:
  "bnd (call_ext n r) f s =
     (case r of Inl e \<Rightarrow> Inl (e, s\<lparr>trace := trace s @ [Call n]\<rparr>)
              | Inr a \<Rightarrow> f a (s\<lparr>trace := trace s @ [Call n]\<rparr>))"
  by (simp add: call_ext_def log_event_def action_simps)

lemma bnd_dict_get:
  "bnd (dict_get d k) f s = (case map_of d k of None \<Rightarrow> Inl (KeyError k, s) | Some v \<Rightarrow> f v s)"
  by (simp add: dict_get_def action_simps split: option.splits)

lemma bnd_call_hf_summary:
  "bnd (call_hf_summary eng hf_data dhf) f s =
     (case print_sapt_hf_summary eng hf_data dhf (variables s) of
        Inl e \<Rightarrow> Inl (e, s\<lparr>trace := trace s @ [HfSummary hf_data dhf]\<rparr>)
      | Inr vs \<Rightarrow> f () (s\<lparr>variables := vs, trace := trace s @ [HfSummary hf_data dhf]\<rparr>))"
  by (cases s) (simp add: call_hf_summary_def log_event_def action_simps split: sum.splits)

lemma bnd_call_dft_summary:
  "bnd (call_dft_summary eng data) f s =
     (case print_sapt_dft_summary eng data (variables s) of
        Inl e \<Rightarrow> Inl (e, s\<lparr>trace := trace s @ [DftSummary data]\<rparr>)
      | Inr vs \<Rightarrow> f () (s\<lparr>variables := vs, trace := trace s @ [DftSummary data]\<rparr>))"
  by (cases s) (simp add: call_dft_summary_def log_event_def action_simps split: sum.splits)

lemma bnd_call_scf_helper:
  "bnd (call_scf_helper eng banner mol kw) f s =
     (if kw_molecule kw \<noteq> None
      then Inl (TypeError ''scf_helper() got multiple values for keyword argument molecule'', s)
      else case scf_helper eng banner mol
                  (s\<lparr>trace := trace s @ [ScfCall banner mol (opt_get_global (options s) ''DFT_GRAC_SHIFT'')]\<rparr>) of
             Inl e \<Rightarrow>
               Inl (e, s\<lparr>trace := trace s @
                          [ScfCall banner mol (opt_get_global (options s) ''DFT_GRAC_SHIFT'')]\<rparr>)
           | Inr wfn \<Rightarrow>
               f wfn (s\<lparr>variables := (variables s)(''CURRENT ENERGY'' := wfn_energy wfn),
                        trace := trace s @
                          [ScfCall banner mol (opt_get_global (options s) ''DFT_GRAC_SHIFT''),
                           ScfReturn banner wfn]\<rparr>))"
  by (cases s)
     (simp add: call_scf_helper_def log_event_def get_global_option_def set_variable_def action_simps
        split: sum.splits)

lemmas core_simps =
  bnd_when_df_relabel bnd_when_df_ints bnd_when_shift bnd_log_event log_event_app bnd_get_option
  bnd_get_global_option bnd_has_option_changed bnd_set_local_option bnd_set_global_option
  bnd_get_variable bnd_set_variable bnd_set_default_namespace bnd_call_ext bnd_dict_get
  bnd_call_hf_summary bnd_call_dft_summary bnd_call_scf_helper

subsection \<open>The stages before the first sub-calculation\<close>

lemma bnd_sapt_entry: "bnd sapt_entry (\<lambda>optstash. g) s = g (entered s)"
  by (cases s)
     (simp add: sapt_entry_def OptionsState_def entered_def alter_default_def action_simps core_simps)

lemma bnd_sapt_geometry: "bnd (sapt_geometry kw) f s = f (the_dimer kw s, the_kwargs kw) s"
  by (simp add: sapt_geometry_def the_dimer_def the_kwargs_def action_simps split: option.splits)

lemma bnd_sapt_settings:
  "bnd (sapt_settings d) f s =
     (case validation_failure (options s) d of
        Some e \<Rightarrow> Inl (e, s)
      | None \<Rightarrow> f (opt_get (options s) ''SAPT'' ''SAPT_DFT_GRAC_SHIFT_A'',
                   opt_get (options s) ''SAPT'' ''SAPT_DFT_GRAC_SHIFT_B'',
                   opt_get (options s) ''SAPT'' ''SAPT_DFT_DO_DHF'') s)"
  by (simp add: sapt_settings_def validation_failure_def action_simps core_simps)

lemma bnd_sapt_setup:
  "bnd (sapt_setup d) f s =
     f (monomerA_of d, monomerB_of d, [])
       (s\<lparr>options := save_df_ints (opt_set_global ''SAVE_JK'' (OBool True) (options s)),
          default_namespace := ''dimer''\<rparr>)"
  by (cases s) (simp add: sapt_setup_def monomerA_of_def monomerB_of_def action_simps core_simps)

lemma run_sapt_dft_unfold:
  "run_sapt_dft eng name kw s =
     (case validation_failure (alter_default (options s)) (the_dimer kw s) of
        Some e \<Rightarrow> Inl (e, entered s)
      | None \<Rightarrow>
          sapt_passes eng (the_kwargs kw) (the_dimer kw s)
            (monomerA_of (the_dimer kw s)) (monomerB_of (the_dimer kw s))
            (opt_get (options s) ''SAPT'' ''SAPT_DFT_GRAC_SHIFT_A'')
            (opt_get (options s) ''SAPT'' ''SAPT_DFT_GRAC_SHIFT_B'')
            (opt_get (options s) ''SAPT'' ''SAPT_DFT_DO_DHF'') [] (prepared s))"
  by (cases s)
     (simp add: run_sapt_dft_def bnd_sapt_entry bnd_sapt_geometry bnd_sapt_settings bnd_sapt_setup
        entered_def prepared_def the_dimer_def opt_get_alter_default_other split: option.splits)

lemma new_events_append: "trace s' = trace s @ evs \<Longrightarrow> new_events s s' = evs"
  by (simp add: new_events_def)

lemma new_events_entered: "new_events s (entered s) = [Tstart, PrepareOptions ''SAPT'']"
  by (simp add: new_events_def entered_def)

lemmas demo_opt_defs = demo_options_def demo_options_no_dhf_def demo_options_no_shift_def
  demo_options_pk_def opt_get_def opt_get_global_def opt_has_changed_def unset_def user_set_def

section \<open>The claims\<close>

text \<open>
  C4. Whenever the primary functional is not \<open>"HF"\<close> and at least one of the two GRAC
  shifts is \<open>0.0\<close>, the run raises the validation error of line 110, in the state reached
  right after line 57: the only events of the run are the start of the timer and the
  preparation of the options, so the SCF engine has not been called.
\<close>

theorem C4_validation_before_engine:
  assumes \<open>opt_get (options s) ''SAPT'' ''SAPT_DFT_FUNCTIONAL'' \<noteq> OStr ''HF''\<close>
    and \<open>opt_get (options s) ''SAPT'' ''SAPT_DFT_GRAC_SHIFT_A'' = ONum 0 \<or>
         opt_get (options s) ''SAPT'' ''SAPT_DFT_GRAC_SHIFT_B'' = ONum 0\<close>
  shows \<open>run_sapt_dft eng name kw s =
           Inl (ValidationError ''SAPT(DFT): must set both "SAPT_DFT_GRAC_SHIFT_A" and "B".'', entered s) \<and>
         new_events s (entered s) = [Tstart, PrepareOptions ''SAPT''] \<and>
         scf_banners (new_events s (entered s)) = []\<close>
  using assms
  by (simp add: run_sapt_dft_unfold validation_failure_def opt_get_alter_default_other
        new_events_entered scf_banners_def)

theorem C4_witness:
  \<open>opt_get (options demo_state_no_shift) ''SAPT'' ''SAPT_DFT_FUNCTIONAL'' \<noteq> OStr ''HF'' \<and>
   opt_get (options demo_state_no_shift) ''SAPT'' ''SAPT_DFT_GRAC_SHIFT_A'' = ONum 0 \<and>
   run_sapt_dft demo_engine ''sapt(dft)'' demo_kwargs demo_state_no_shift =
     Inl (ValidationError ''SAPT(DFT): must set both "SAPT_DFT_GRAC_SHIFT_A" and "B".'',
          entered demo_state_no_shift) \<and>
   scf_banners (new_events demo_state_no_shift (entered demo_state_no_shift)) = []\<close>
proof -
  have f: "opt_get (options demo_state_no_shift) ''SAPT'' ''SAPT_DFT_FUNCTIONAL'' \<noteq> OStr ''HF''"
    by (simp add: demo_state_no_shift_def demo_state_def demo_opt_defs)
  have a: "opt_get (options demo_state_no_shift) ''SAPT'' ''SAPT_DFT_GRAC_SHIFT_A'' = ONum 0"
    by (simp add: demo_state_no_shift_def demo_state_def demo_opt_defs)
  from a have ab: "opt_get (options demo_state_no_shift) ''SAPT'' ''SAPT_DFT_GRAC_SHIFT_A'' = ONum 0 \<or>
      opt_get (options demo_state_no_shift) ''SAPT'' ''SAPT_DFT_GRAC_SHIFT_B'' = ONum 0"
    by (rule disjI1)
  from C4_validation_before_engine [OF f ab, of demo_engine "''sapt(dft)''" demo_kwargs] f a
  show ?thesis by blast
qed

subsection \<open>The stages that call the engine, when they return\<close>

lemma delta_hf_pass_success:
  assumes "delta_hf_pass eng kw d mA mB data s = Inr ((w, data'), s')"
  shows "\<exists>wa wb c elst exch ind e1 e2 e3 vs.
     build_sapt_jk_cache eng wa wb (wfn_jk wb) = Inr c \<and>
     electrostatics eng c = Inr elst \<and>
     exchange eng c (wfn_jk wb) = Inr exch \<and>
     induction_term eng c (wfn_jk wb) (opt_get (options s) ''SAPT'' ''MAXITER'')
       (opt_get (options s) ''SAPT'' ''D_CONVERGENCE'') = Inr ind \<and>
     map_of (hf_mapping (wfn_energy w) (wfn_energy wa) (wfn_energy wb) elst exch ind) ''HF DIMER'' = Some e1 \<and>
     map_of (hf_mapping (wfn_energy w) (wfn_energy wa) (wfn_energy wb) elst exch ind) ''HF MONOMER A'' = Some e2 \<and>
     map_of (hf_mapping (wfn_energy w) (wfn_energy wa) (wfn_energy wb) elst exch ind) ''HF MONOMER B'' = Some e3 \<and>
     print_sapt_hf_summary eng (hf_mapping (wfn_energy w) (wfn_energy wa) (wfn_energy wb) elst exch ind)
       (e1 - e2 - e3) ((variables s)(''CURRENT ENERGY'' := wfn_energy wb)) = Inr vs \<and>
     kw_molecule kw = None \<and>
     data' = AList.update ''Delta HF Correction'' (vs ''SAPT(DFT) Delta HF'') data \<and>
     s' = s\<lparr>options := save_df_ints (options s), variables := vs,
            trace := trace s @
              [ScfCall ''SAPT(DFT): delta HF Dimer'' d (opt_get_global (options s) ''DFT_GRAC_SHIFT''),
               ScfReturn ''SAPT(DFT): delta HF Dimer'' w] @
              relabel_events (options s) ''dimer'' ''monomerA'' @
              [ScfCall ''SAPT(DFT): delta HF Monomer A'' mA (opt_get_global (options s) ''DFT_GRAC_SHIFT''),
               ScfReturn ''SAPT(DFT): delta HF Monomer A'' wa] @
              relabel_events (options s) ''monomerA'' ''monomerB'' @
              [ScfCall ''SAPT(DFT): delta HF Monomer B'' mB (opt_get_global (options s) ''DFT_GRAC_SHIFT''),
               ScfReturn ''SAPT(DFT): delta HF Monomer B'' wb] @
              relabel_events (options s) ''monomerB'' ''dimer'' @
              [Call ''sapt_jk_terms.build_sapt_jk_cache'', Call ''sapt_jk_terms.electrostatics'',
               Call ''sapt_jk_terms.exchange'', Call ''sapt_jk_terms.induction'',
               HfSummary (hf_mapping (wfn_energy w) (wfn_energy wa) (wfn_energy wb) elst exch ind)
                 (e1 - e2 - e3)]\<rparr>"
  using assms
  apply (clarsimp simp add: delta_hf_pass_def hf_mapping_def action_simps core_simps opt_simps
      split: sum.split_asm option.split_asm if_split_asm)
  apply (intro exI conjI; (assumption | rule refl)?)
  done

lemma primary_settings_success:
  assumes "primary_settings eng d hf s = Inr (w, s')"
  shows "(case hf of
            None \<Rightarrow> Wavefunction_build eng d (opt_get_global (options s) ''BASIS'') = Inr w
          | Some hw \<Rightarrow> w = hw) \<and>
         s' = s\<lparr>options := opt_set_local ''SCF'' ''REFERENCE'' (OStr ''RKS'')
                   (opt_set_global ''DFT_FUNCTIONAL'' (opt_get (options s) ''SAPT'' ''SAPT_DFT_FUNCTIONAL'')
                      (options s)),
                trace := trace s @ (case hf of None \<Rightarrow> [Call ''core.Wavefunction.build''] | Some hw \<Rightarrow> [])\<rparr>"
  using assms
  by (cases s; cases hf)
     (auto simp add: primary_settings_def action_simps core_simps opt_simps split: sum.split_asm)

lemma dft_monomer_A_success:
  assumes "dft_monomer_A eng kw mA v data s = Inr ((w, data'), s')"
  shows "kw_molecule kw = None \<and>
         data' = AList.update ''DFT MONOMERA'' (wfn_energy w) data \<and>
         s' = s\<lparr>options := opt_set_global ''DFT_GRAC_SHIFT'' (ONum 0) (apply_shift v (options s)),
                variables := (variables s)(''CURRENT ENERGY'' := wfn_energy w),
                default_namespace := ''monomerA'',
                trace := trace s @ relabel_events (options s) ''dimer'' ''monomerA'' @
                  [ScfCall ''SAPT(DFT): DFT Monomer A'' mA
                     (if truthy v then v else opt_get_global (options s) ''DFT_GRAC_SHIFT''),
                   ScfReturn ''SAPT(DFT): DFT Monomer A'' w]\<rparr>"
  using assms
  by (cases s)
     (auto simp add: dft_monomer_A_def apply_shift_def action_simps core_simps opt_simps
        split: sum.split_asm if_split_asm)

lemma dft_monomer_B_success:
  assumes "dft_monomer_B eng kw mB v data s = Inr ((w, data'), s')"
  shows "kw_molecule kw = None \<and>
         data' = AList.update ''DFT MONOMERB'' (wfn_energy w) data \<and>
         s' = s\<lparr>options := opt_set_global ''DFT_GRAC_SHIFT'' (ONum 0) (apply_shift v (options s)),
                variables := (variables s)(''CURRENT ENERGY'' := wfn_energy w),
                default_namespace := ''monomerB'',
                trace := trace s @ relabel_events (options s) ''monomerA'' ''monomerB'' @
                  [ScfCall ''SAPT(DFT): DFT Monomer B'' mB
                     (if truthy v then v else opt_get_global (options s) ''DFT_GRAC_SHIFT''),
                   ScfReturn ''SAPT(DFT): DFT Monomer B'' w]\<rparr>"
  using assms
  by (cases s)
     (auto simp add: dft_monomer_B_def apply_shift_def action_simps core_simps opt_simps
        split: sum.split_asm if_split_asm)


lemma interaction_terms_success:
  assumes "interaction_terms eng d dw wA wB data s = Inr (data', s')"
  shows "\<exists>c elst exch ind aux fdds mp2.
     build_sapt_jk_cache eng wA wB (wfn_jk wB) = Inr c \<and>
     electrostatics eng c = Inr elst \<and>
     exchange eng c (wfn_jk wB) = Inr exch \<and>
     induction_term eng c (wfn_jk wB) (opt_get (options s) ''SAPT'' ''MAXITER'')
       (opt_get (options s) ''SAPT'' ''D_CONVERGENCE'') = Inr ind \<and>
     BasisSet_build eng d ''DF_BASIS_MP2'' (opt_get (options s) ''DFMP2'' ''DF_BASIS_MP2'') ''RIFIT''
       (opt_get_global (options s) ''BASIS'') = Inr aux \<and>
     df_fdds_dispersion eng (wfn_basisset wA) aux c = Inr fdds \<and>
     (if opt_get (options s) ''SAPT'' ''SAPT_DFT_MP2_DISP_ALG'' = OStr ''FISAPT''
      then df_mp2_fisapt_dispersion eng wA (wfn_basisset wA) aux c = Inr mp2
      else df_mp2_sapt_dispersion eng dw wA wB (wfn_basisset wA) aux c = Inr mp2) \<and>
     data' = dict_update (dict_update (dict_update (dict_update (dict_update data elst) exch) ind) fdds) mp2 \<and>
     s' = s\<lparr>trace := trace s @
              [Call ''sapt_jk_terms.build_sapt_jk_cache'', Call ''sapt_jk_terms.electrostatics'',
               Call ''sapt_jk_terms.exchange'', Call ''sapt_jk_terms.induction'',
               Call ''core.BasisSet.build'', Call ''sapt_mp2_terms.df_fdds_dispersion'',
               Call (mp2_evaluator (opt_get (options s) ''SAPT'' ''SAPT_DFT_MP2_DISP_ALG''))]\<rparr>"
  using assms
  by (clarsimp simp add: interaction_terms_def mp2_evaluator_def action_simps core_simps opt_simps
      split: sum.split_asm if_split_asm)

lemma publish_all_simps:
  "publish_all vs [] = vs"
  "publish_all vs (kv # data) = publish_all (vs(fst kv := snd kv)) data"
  by (simp_all add: publish_all_def)

lemma set_variables_app:
  "set_variables data s = Inr ((), s\<lparr>variables := publish_all (variables s) data\<rparr>)"
proof (induction data arbitrary: s)
  case Nil
  show ?case by (simp add: publish_all_simps action_simps)
next
  case (Cons kv data)
  have "set_variables (kv # data) s =
          set_variables data (s\<lparr>variables := (variables s)(fst kv := snd kv)\<rparr>)"
    by (simp add: core_simps)
  also have "\<dots> = Inr ((), s\<lparr>variables := publish_all (variables s) (kv # data)\<rparr>)"
    unfolding Cons.IH publish_all_simps by simp
  finally show ?case .
qed

lemma bnd_set_variables:
  "bnd (set_variables data) f s =
     f () (s\<lparr>variables := publish_all (variables s) data\<rparr>)"
  by (simp add: bnd_def set_variables_app)

lemma publish_success:
  assumes "publish eng data s = Inr (u, s')"
  shows "\<exists>vs. print_sapt_dft_summary eng data (variables s) = Inr vs \<and>
     s' = s\<lparr>variables := publish_all vs data,
            trace := trace s @ [DftSummary data, Tstop]\<rparr>"
  using assms
  by (cases s)
     (auto simp add: publish_def bnd_set_variables action_simps core_simps split: sum.split_asm)

lemma sapt_passes_success:
  assumes "sapt_passes eng kw d mA mB a b dhf data s = Inr (w, s')"
  shows "\<exists>hf data1 s1 s2 wA data2 s3 wB data3 s4 data4 s5.
     (if truthy dhf
      then (\<exists>hw. delta_hf_pass eng kw d mA mB data s = Inr ((hw, data1), s1) \<and> hf = Some hw)
      else hf = None \<and> data1 = data \<and> s1 = s) \<and>
     primary_settings eng d hf s1 = Inr (w, s2) \<and>
     dft_monomer_A eng kw mA a data1 s2 = Inr ((wA, data2), s3) \<and>
     dft_monomer_B eng kw mB b data2 s3 = Inr ((wB, data3), s4) \<and>
     interaction_terms eng d w wA wB data3 s4 = Inr (data4, s5) \<and>
     publish eng data4 s5 = Inr ((), s')"
  using assms
  apply (simp add: sapt_passes_def bnd_Inr_iff ret_app split: if_split_asm prod.splits)
  apply (auto simp add: bnd_Inr_iff ret_app split: prod.splits)
  done

subsection \<open>A run that returns\<close>

lemma save_df_ints_idem: "save_df_ints (save_df_ints os) = save_df_ints os"
  by (simp add: save_df_ints_def opt_get_set_global opt_set_global_def)

lemma relabel_events_prepared:
  "relabel_events (save_df_ints (opt_set_global ''SAVE_JK'' v os)) old new = relabel_events os old new"
  by (simp add: opt_simps)

lemma run_success:
  assumes "run_sapt_dft eng name kw s = Inr (w, s')"
  shows "\<exists>aux_evs dcorr hvs wA wB c elst exch ind aux fdds mp2 vs.
    validation_failure (alter_default (options s)) (the_dimer kw s) = None \<and>
    kw_molecule (the_kwargs kw) = None \<and>
    (if truthy (opt_get (options s) ''SAPT'' ''SAPT_DFT_DO_DHF'')
     then (\<exists>wa wb c' elst' exch' ind' e1 e2 e3.
        build_sapt_jk_cache eng wa wb (wfn_jk wb) = Inr c' \<and>
        electrostatics eng c' = Inr elst' \<and>
        exchange eng c' (wfn_jk wb) = Inr exch' \<and>
        induction_term eng c' (wfn_jk wb) (opt_get (options s) ''SAPT'' ''MAXITER'')
          (opt_get (options s) ''SAPT'' ''D_CONVERGENCE'') = Inr ind' \<and>
        map_of (hf_mapping (wfn_energy w) (wfn_energy wa) (wfn_energy wb) elst' exch' ind') ''HF DIMER'' = Some e1 \<and>
        map_of (hf_mapping (wfn_energy w) (wfn_energy wa) (wfn_energy wb) elst' exch' ind') ''HF MONOMER A'' = Some e2 \<and>
        map_of (hf_mapping (wfn_energy w) (wfn_energy wa) (wfn_energy wb) elst' exch' ind') ''HF MONOMER B'' = Some e3 \<and>
        print_sapt_hf_summary eng (hf_mapping (wfn_energy w) (wfn_energy wa) (wfn_energy wb) elst' exch' ind')
          (e1 - e2 - e3) ((variables s)(''CURRENT ENERGY'' := wfn_energy wb)) = Inr hvs \<and>
        aux_evs = aux_events (alter_default (options s)) (opt_get_global (options s) ''DFT_GRAC_SHIFT'')
          (the_dimer kw s) (monomerA_of (the_dimer kw s)) (monomerB_of (the_dimer kw s)) w wa wb
          (hf_mapping (wfn_energy w) (wfn_energy wa) (wfn_energy wb) elst' exch' ind') (e1 - e2 - e3) \<and>
        dcorr = [(''Delta HF Correction'', hvs ''SAPT(DFT) Delta HF'')])
     else Wavefunction_build eng (the_dimer kw s) (opt_get_global (options s) ''BASIS'') = Inr w \<and>
          aux_evs = [Call ''core.Wavefunction.build''] \<and> dcorr = [] \<and> hvs = variables s) \<and>
    build_sapt_jk_cache eng wA wB (wfn_jk wB) = Inr c \<and>
    electrostatics eng c = Inr elst \<and>
    exchange eng c (wfn_jk wB) = Inr exch \<and>
    induction_term eng c (wfn_jk wB) (opt_get (options s) ''SAPT'' ''MAXITER'')
      (opt_get (options s) ''SAPT'' ''D_CONVERGENCE'') = Inr ind \<and>
    BasisSet_build eng (the_dimer kw s) ''DF_BASIS_MP2'' (opt_get (options s) ''DFMP2'' ''DF_BASIS_MP2'')
      ''RIFIT'' (opt_get_global (options s) ''BASIS'') = Inr aux \<and>
    df_fdds_dispersion eng (wfn_basisset wA) aux c = Inr fdds \<and>
    (if opt_get (options s) ''SAPT'' ''SAPT_DFT_MP2_DISP_ALG'' = OStr ''FISAPT''
     then df_mp2_fisapt_dispersion eng wA (wfn_basisset wA) aux c = Inr mp2
     else df_mp2_sapt_dispersion eng w wA wB (wfn_basisset wA) aux c = Inr mp2) \<and>
    print_sapt_dft_summary eng
      (final_report dcorr (wfn_energy wA) (wfn_energy wB) elst exch ind fdds mp2)
      (hvs(''CURRENT ENERGY'' := wfn_energy wB)) = Inr vs \<and>
    new_events s s' =
      [Tstart, PrepareOptions ''SAPT''] @ aux_evs @
      primary_events (alter_default (options s))
        (if truthy (opt_get (options s) ''SAPT'' ''SAPT_DFT_GRAC_SHIFT_A'')
         then opt_get (options s) ''SAPT'' ''SAPT_DFT_GRAC_SHIFT_A''
         else opt_get_global (options s) ''DFT_GRAC_SHIFT'')
        (if truthy (opt_get (options s) ''SAPT'' ''SAPT_DFT_GRAC_SHIFT_B'')
         then opt_get (options s) ''SAPT'' ''SAPT_DFT_GRAC_SHIFT_B''
         else ONum 0)
        (monomerA_of (the_dimer kw s)) (monomerB_of (the_dimer kw s)) wA wB
        (opt_get (options s) ''SAPT'' ''SAPT_DFT_MP2_DISP_ALG'')
        (final_report dcorr (wfn_energy wA) (wfn_energy wB) elst exch ind fdds mp2) \<and>
    options s' = final_options (options s) \<and>
    variables s' =
      publish_all vs (final_report dcorr (wfn_energy wA) (wfn_energy wB) elst exch ind fdds mp2) \<and>
    default_namespace s' = ''monomerB'' \<and>
    active_molecule s' = active_molecule s"
proof -
  let ?d = "the_dimer kw s"
  let ?dhf = "opt_get (options s) ''SAPT'' ''SAPT_DFT_DO_DHF''"
  from assms have vf: "validation_failure (alter_default (options s)) ?d = None"
    and passes: "sapt_passes eng (the_kwargs kw) ?d (monomerA_of ?d) (monomerB_of ?d)
        (opt_get (options s) ''SAPT'' ''SAPT_DFT_GRAC_SHIFT_A'')
        (opt_get (options s) ''SAPT'' ''SAPT_DFT_GRAC_SHIFT_B'') ?dhf [] (prepared s) = Inr (w, s')"
    by (auto simp add: run_sapt_dft_unfold split: option.split_asm)
  from sapt_passes_success [OF passes]
  obtain hf data1 s1 s2 wA data2 s3 wB data3 s4 data4 s5 where
    aux: "if truthy ?dhf
          then (\<exists>hw. delta_hf_pass eng (the_kwargs kw) ?d (monomerA_of ?d) (monomerB_of ?d) [] (prepared s) =
                        Inr ((hw, data1), s1) \<and> hf = Some hw)
          else hf = None \<and> data1 = [] \<and> s1 = prepared s"
    and ps: "primary_settings eng ?d hf s1 = Inr (w, s2)"
    and mA: "dft_monomer_A eng (the_kwargs kw) (monomerA_of ?d)
               (opt_get (options s) ''SAPT'' ''SAPT_DFT_GRAC_SHIFT_A'') data1 s2 = Inr ((wA, data2), s3)"
    and mB: "dft_monomer_B eng (the_kwargs kw) (monomerB_of ?d)
               (opt_get (options s) ''SAPT'' ''SAPT_DFT_GRAC_SHIFT_B'') data2 s3 = Inr ((wB, data3), s4)"
    and it: "interaction_terms eng ?d w wA wB data3 s4 = Inr (data4, s5)"
    and pb: "publish eng data4 s5 = Inr ((), s')"
    by blast
  let ?os2 = "opt_set_local ''SCF'' ''REFERENCE'' (OStr ''RKS'')
      (opt_set_global ''DFT_FUNCTIONAL'' (opt_get (options s) ''SAPT'' ''SAPT_DFT_FUNCTIONAL'')
        (save_df_ints (opt_set_global ''SAVE_JK'' (OBool True) (alter_default (options s)))))"
  note psS = primary_settings_success [OF ps]
  obtain aux_evs dcorr hvs where
    A: "if truthy ?dhf
     then (\<exists>wa wb c' elst' exch' ind' e1 e2 e3.
        build_sapt_jk_cache eng wa wb (wfn_jk wb) = Inr c' \<and>
        electrostatics eng c' = Inr elst' \<and>
        exchange eng c' (wfn_jk wb) = Inr exch' \<and>
        induction_term eng c' (wfn_jk wb) (opt_get (options s) ''SAPT'' ''MAXITER'')
          (opt_get (options s) ''SAPT'' ''D_CONVERGENCE'') = Inr ind' \<and>
        map_of (hf_mapping (wfn_energy w) (wfn_energy wa) (wfn_energy wb) elst' exch' ind') ''HF DIMER'' = Some e1 \<and>
        map_of (hf_mapping (wfn_energy w) (wfn_energy wa) (wfn_energy wb) elst' exch' ind') ''HF MONOMER A'' = Some e2 \<and>
        map_of (hf_mapping (wfn_energy w) (wfn_energy wa) (wfn_energy wb) elst' exch' ind') ''HF MONOMER B'' = Some e3 \<and>
        print_sapt_hf_summary eng (hf_mapping (wfn_energy w) (wfn_energy wa) (wfn_energy wb) elst' exch' ind')
          (e1 - e2 - e3) ((variables s)(''CURRENT ENERGY'' := wfn_energy wb)) = Inr hvs \<and>
        aux_evs = aux_events (alter_default (options s)) (opt_get_global (options s) ''DFT_GRAC_SHIFT'')
          ?d (monomerA_of ?d) (monomerB_of ?d) w wa wb
          (hf_mapping (wfn_energy w) (wfn_energy wa) (wfn_energy wb) elst' exch' ind') (e1 - e2 - e3) \<and>
        dcorr = [(''Delta HF Correction'', hvs ''SAPT(DFT) Delta HF'')])
     else Wavefunction_build eng ?d (opt_get_global (options s) ''BASIS'') = Inr w \<and>
          aux_evs = [Call ''core.Wavefunction.build''] \<and> dcorr = [] \<and> hvs = variables s"
    and O2: "options s2 = ?os2"
    and V2: "variables s2 = hvs"
    and T2: "trace s2 = trace s @ [Tstart, PrepareOptions ''SAPT''] @ aux_evs"
    and D1: "data1 = dcorr"
    and M2: "active_molecule s2 = active_molecule s"
  proof (cases "truthy ?dhf")
    case False
    with aux have hf: "hf = None" and d1: "data1 = []" and s1: "s1 = prepared s"
      by simp_all
    show thesis
    proof (rule that [where aux_evs = "[Call ''core.Wavefunction.build'']" and dcorr = "[]"
          and hvs = "variables s"])
      show "options s2 = ?os2" "variables s2 = variables s" "data1 = []"
        "active_molecule s2 = active_molecule s"
        "trace s2 = trace s @ [Tstart, PrepareOptions ''SAPT''] @ [Call ''core.Wavefunction.build'']"
        using psS by (simp_all add: hf d1 s1 prepared_def opt_simps)
    qed (use False psS in \<open>simp add: hf s1 prepared_def opt_simps\<close>)
  next
    case True
    with aux obtain hw where
      dp: "delta_hf_pass eng (the_kwargs kw) ?d (monomerA_of ?d) (monomerB_of ?d) [] (prepared s) =
             Inr ((hw, data1), s1)"
      and hf: "hf = Some hw"
      by auto
    from psS hf have w: "hw = w"
      by simp
    from delta_hf_pass_success [OF dp [unfolded w]]
    obtain wa wb c' elst' exch' ind' e1 e2 e3 hvs where
      a1: "build_sapt_jk_cache eng wa wb (wfn_jk wb) = Inr c'"
      and a2: "electrostatics eng c' = Inr elst'"
      and a3: "exchange eng c' (wfn_jk wb) = Inr exch'"
      and a4: "induction_term eng c' (wfn_jk wb) (opt_get (options (prepared s)) ''SAPT'' ''MAXITER'')
                 (opt_get (options (prepared s)) ''SAPT'' ''D_CONVERGENCE'') = Inr ind'"
      and a5: "map_of (hf_mapping (wfn_energy w) (wfn_energy wa) (wfn_energy wb) elst' exch' ind') ''HF DIMER'' = Some e1"
      and a6: "map_of (hf_mapping (wfn_energy w) (wfn_energy wa) (wfn_energy wb) elst' exch' ind') ''HF MONOMER A'' = Some e2"
      and a7: "map_of (hf_mapping (wfn_energy w) (wfn_energy wa) (wfn_energy wb) elst' exch' ind') ''HF MONOMER B'' = Some e3"
      and a8: "print_sapt_hf_summary eng (hf_mapping (wfn_energy w) (wfn_energy wa) (wfn_energy wb) elst' exch' ind')
                 (e1 - e2 - e3) ((variables (prepared s))(''CURRENT ENERGY'' := wfn_energy wb)) = Inr hvs"
      and d1: "data1 = AList.update ''Delta HF Correction'' (hvs ''SAPT(DFT) Delta HF'') []"
      and s1: "s1 = (prepared s)\<lparr>options := save_df_ints (options (prepared s)), variables := hvs,
            trace := trace (prepared s) @
              [ScfCall ''SAPT(DFT): delta HF Dimer'' ?d (opt_get_global (options (prepared s)) ''DFT_GRAC_SHIFT''),
               ScfReturn ''SAPT(DFT): delta HF Dimer'' w] @
              relabel_events (options (prepared s)) ''dimer'' ''monomerA'' @
              [ScfCall ''SAPT(DFT): delta HF Monomer A'' (monomerA_of ?d) (opt_get_global (options (prepared s)) ''DFT_GRAC_SHIFT''),
               ScfReturn ''SAPT(DFT): delta HF Monomer A'' wa] @
              relabel_events (options (prepared s)) ''monomerA'' ''monomerB'' @
              [ScfCall ''SAPT(DFT): delta HF Monomer B'' (monomerB_of ?d) (opt_get_global (options (prepared s)) ''DFT_GRAC_SHIFT''),
               ScfReturn ''SAPT(DFT): delta HF Monomer B'' wb] @
              relabel_events (options (prepared s)) ''monomerB'' ''dimer'' @
              [Call ''sapt_jk_terms.build_sapt_jk_cache'', Call ''sapt_jk_terms.electrostatics'',
               Call ''sapt_jk_terms.exchange'', Call ''sapt_jk_terms.induction'',
               HfSummary (hf_mapping (wfn_energy w) (wfn_energy wa) (wfn_energy wb) elst' exch' ind')
                 (e1 - e2 - e3)]\<rparr>"
      by blast
    let ?hf_data = "hf_mapping (wfn_energy w) (wfn_energy wa) (wfn_energy wb) elst' exch' ind'"
    let ?evs = "aux_events (alter_default (options s)) (opt_get_global (options s) ''DFT_GRAC_SHIFT'')
          ?d (monomerA_of ?d) (monomerB_of ?d) w wa wb ?hf_data (e1 - e2 - e3)"
    show thesis
    proof (rule that [where aux_evs = ?evs
          and dcorr = "[(''Delta HF Correction'', hvs ''SAPT(DFT) Delta HF'')]" and hvs = hvs])
      show "options s2 = ?os2" "variables s2 = hvs"
        "data1 = [(''Delta HF Correction'', hvs ''SAPT(DFT) Delta HF'')]"
        "active_molecule s2 = active_molecule s"
        "trace s2 = trace s @ [Tstart, PrepareOptions ''SAPT''] @ ?evs"
        using psS
        by (simp_all add: hf d1 s1 prepared_def aux_events_def save_df_ints_idem opt_simps)
      have "build_sapt_jk_cache eng wa wb (wfn_jk wb) = Inr c' \<and>
        electrostatics eng c' = Inr elst' \<and>
        exchange eng c' (wfn_jk wb) = Inr exch' \<and>
        induction_term eng c' (wfn_jk wb) (opt_get (options s) ''SAPT'' ''MAXITER'')
          (opt_get (options s) ''SAPT'' ''D_CONVERGENCE'') = Inr ind' \<and>
        map_of ?hf_data ''HF DIMER'' = Some e1 \<and>
        map_of ?hf_data ''HF MONOMER A'' = Some e2 \<and>
        map_of ?hf_data ''HF MONOMER B'' = Some e3 \<and>
        print_sapt_hf_summary eng ?hf_data
          (e1 - e2 - e3) ((variables s)(''CURRENT ENERGY'' := wfn_energy wb)) = Inr hvs \<and>
        ?evs = ?evs \<and>
        [(''Delta HF Correction'', hvs ''SAPT(DFT) Delta HF'')] =
        [(''Delta HF Correction'', hvs ''SAPT(DFT) Delta HF'')]"
        using a1 a2 a3 a4 a5 a6 a7 a8 by (simp add: prepared_def opt_simps)
      then have "\<exists>wa' wb' c' elst' exch' ind' e1' e2' e3'.
        build_sapt_jk_cache eng wa' wb' (wfn_jk wb') = Inr c' \<and>
        electrostatics eng c' = Inr elst' \<and>
        exchange eng c' (wfn_jk wb') = Inr exch' \<and>
        induction_term eng c' (wfn_jk wb') (opt_get (options s) ''SAPT'' ''MAXITER'')
          (opt_get (options s) ''SAPT'' ''D_CONVERGENCE'') = Inr ind' \<and>
        map_of (hf_mapping (wfn_energy w) (wfn_energy wa') (wfn_energy wb') elst' exch' ind') ''HF DIMER'' = Some e1' \<and>
        map_of (hf_mapping (wfn_energy w) (wfn_energy wa') (wfn_energy wb') elst' exch' ind') ''HF MONOMER A'' = Some e2' \<and>
        map_of (hf_mapping (wfn_energy w) (wfn_energy wa') (wfn_energy wb') elst' exch' ind') ''HF MONOMER B'' = Some e3' \<and>
        print_sapt_hf_summary eng (hf_mapping (wfn_energy w) (wfn_energy wa') (wfn_energy wb') elst' exch' ind')
          (e1' - e2' - e3') ((variables s)(''CURRENT ENERGY'' := wfn_energy wb')) = Inr hvs \<and>
        ?evs = aux_events (alter_default (options s)) (opt_get_global (options s) ''DFT_GRAC_SHIFT'')
          ?d (monomerA_of ?d) (monomerB_of ?d) w wa' wb'
          (hf_mapping (wfn_energy w) (wfn_energy wa') (wfn_energy wb') elst' exch' ind') (e1' - e2' - e3') \<and>
        [(''Delta HF Correction'', hvs ''SAPT(DFT) Delta HF'')] =
        [(''Delta HF Correction'', hvs ''SAPT(DFT) Delta HF'')]"
        by (intro exI)
      with True show "if truthy ?dhf
     then (\<exists>wa wb c' elst' exch' ind' e1 e2 e3.
        build_sapt_jk_cache eng wa wb (wfn_jk wb) = Inr c' \<and>
        electrostatics eng c' = Inr elst' \<and>
        exchange eng c' (wfn_jk wb) = Inr exch' \<and>
        induction_term eng c' (wfn_jk wb) (opt_get (options s) ''SAPT'' ''MAXITER'')
          (opt_get (options s) ''SAPT'' ''D_CONVERGENCE'') = Inr ind' \<and>
        map_of (hf_mapping (wfn_energy w) (wfn_energy wa) (wfn_energy wb) elst' exch' ind') ''HF DIMER'' = Some e1 \<and>
        map_of (hf_mapping (wfn_energy w) (wfn_energy wa) (wfn_energy wb) elst' exch' ind') ''HF MONOMER A'' = Some e2 \<and>
        map_of (hf_mapping (wfn_energy w) (wfn_energy wa) (wfn_energy wb) elst' exch' ind') ''HF MONOMER B'' = Some e3 \<and>
        print_sapt_hf_summary eng (hf_mapping (wfn_energy w) (wfn_energy wa) (wfn_energy wb) elst' exch' ind')
          (e1 - e2 - e3) ((variables s)(''CURRENT ENERGY'' := wfn_energy wb)) = Inr hvs \<and>
        ?evs = aux_events (alter_default (options s)) (opt_get_global (options s) ''DFT_GRAC_SHIFT'')
          ?d (monomerA_of ?d) (monomerB_of ?d) w wa wb
          (hf_mapping (wfn_energy w) (wfn_energy wa) (wfn_energy wb) elst' exch' ind') (e1 - e2 - e3) \<and>
        [(''Delta HF Correction'', hvs ''SAPT(DFT) Delta HF'')] =
          [(''Delta HF Correction'', hvs ''SAPT(DFT) Delta HF'')])
     else Wavefunction_build eng ?d (opt_get_global (options s) ''BASIS'') = Inr w \<and>
          ?evs = [Call ''core.Wavefunction.build''] \<and>
          [(''Delta HF Correction'', hvs ''SAPT(DFT) Delta HF'')] = [] \<and> hvs = variables s"
        by (simp only: if_True)
    qed
  qed
  let ?a = "opt_get (options s) ''SAPT'' ''SAPT_DFT_GRAC_SHIFT_A''"
  let ?b = "opt_get (options s) ''SAPT'' ''SAPT_DFT_GRAC_SHIFT_B''"
  let ?gA = "if truthy ?a then ?a else opt_get_global (options s) ''DFT_GRAC_SHIFT''"
  let ?gB = "if truthy ?b then ?b else ONum 0"
  from dft_monomer_A_success [OF mA]
  have kwn: "kw_molecule (the_kwargs kw) = None"
    and D2: "data2 = AList.update ''DFT MONOMERA'' (wfn_energy wA) dcorr"
    and O3: "options s3 = opt_set_global ''DFT_GRAC_SHIFT'' (ONum 0) (apply_shift ?a ?os2)"
    and V3: "variables s3 = hvs(''CURRENT ENERGY'' := wfn_energy wA)"
    and T3: "trace s3 = trace s @ [Tstart, PrepareOptions ''SAPT''] @ aux_evs @
               relabel_events (alter_default (options s)) ''dimer'' ''monomerA'' @
               [ScfCall ''SAPT(DFT): DFT Monomer A'' (monomerA_of ?d) ?gA,
                ScfReturn ''SAPT(DFT): DFT Monomer A'' wA]"
    and M3: "active_molecule s3 = active_molecule s"
    by (simp_all add: O2 V2 T2 D1 M2 opt_simps)
  from dft_monomer_B_success [OF mB]
  have D3: "data3 = AList.update ''DFT MONOMERB'' (wfn_energy wB) data2"
    and O4: "options s4 = final_options (options s)"
    and V4: "variables s4 = hvs(''CURRENT ENERGY'' := wfn_energy wB)"
    and T4: "trace s4 = trace s @ [Tstart, PrepareOptions ''SAPT''] @ aux_evs @
               relabel_events (alter_default (options s)) ''dimer'' ''monomerA'' @
               [ScfCall ''SAPT(DFT): DFT Monomer A'' (monomerA_of ?d) ?gA,
                ScfReturn ''SAPT(DFT): DFT Monomer A'' wA] @
               relabel_events (alter_default (options s)) ''monomerA'' ''monomerB'' @
               [ScfCall ''SAPT(DFT): DFT Monomer B'' (monomerB_of ?d) ?gB,
                ScfReturn ''SAPT(DFT): DFT Monomer B'' wB]"
    and N4: "default_namespace s4 = ''monomerB''"
    and M4: "active_molecule s4 = active_molecule s"
    by (simp_all add: O3 V3 T3 M3 final_options_def opt_simps)
  from interaction_terms_success [OF it]
  obtain c elst exch ind aux fdds mp2 where
    t1: "build_sapt_jk_cache eng wA wB (wfn_jk wB) = Inr c"
    and t2: "electrostatics eng c = Inr elst"
    and t3: "exchange eng c (wfn_jk wB) = Inr exch"
    and t4: "induction_term eng c (wfn_jk wB) (opt_get (options s4) ''SAPT'' ''MAXITER'')
               (opt_get (options s4) ''SAPT'' ''D_CONVERGENCE'') = Inr ind"
    and t5: "BasisSet_build eng ?d ''DF_BASIS_MP2'' (opt_get (options s4) ''DFMP2'' ''DF_BASIS_MP2'')
               ''RIFIT'' (opt_get_global (options s4) ''BASIS'') = Inr aux"
    and t6: "df_fdds_dispersion eng (wfn_basisset wA) aux c = Inr fdds"
    and t7: "if opt_get (options s4) ''SAPT'' ''SAPT_DFT_MP2_DISP_ALG'' = OStr ''FISAPT''
             then df_mp2_fisapt_dispersion eng wA (wfn_basisset wA) aux c = Inr mp2
             else df_mp2_sapt_dispersion eng w wA wB (wfn_basisset wA) aux c = Inr mp2"
    and d4: "data4 = dict_update (dict_update (dict_update (dict_update (dict_update data3 elst) exch) ind) fdds) mp2"
    and s5: "s5 = s4\<lparr>trace := trace s4 @
              [Call ''sapt_jk_terms.build_sapt_jk_cache'', Call ''sapt_jk_terms.electrostatics'',
               Call ''sapt_jk_terms.exchange'', Call ''sapt_jk_terms.induction'',
               Call ''core.BasisSet.build'', Call ''sapt_mp2_terms.df_fdds_dispersion'',
               Call (mp2_evaluator (opt_get (options s4) ''SAPT'' ''SAPT_DFT_MP2_DISP_ALG''))]\<rparr>"
    by blast
  have keep:
    "opt_get (final_options (options s)) ''SAPT'' ''MAXITER'' = opt_get (options s) ''SAPT'' ''MAXITER''"
    "opt_get (final_options (options s)) ''SAPT'' ''D_CONVERGENCE'' =
       opt_get (options s) ''SAPT'' ''D_CONVERGENCE''"
    "opt_get (final_options (options s)) ''SAPT'' ''SAPT_DFT_MP2_DISP_ALG'' =
       opt_get (options s) ''SAPT'' ''SAPT_DFT_MP2_DISP_ALG''"
    "opt_get (final_options (options s)) ''DFMP2'' ''DF_BASIS_MP2'' =
       opt_get (options s) ''DFMP2'' ''DF_BASIS_MP2''"
    by (simp_all add: final_options_def opt_simps)
  have keepg: "opt_get_global (final_options (options s)) ''BASIS'' = opt_get_global (options s) ''BASIS''"
    by (simp add: final_options_def opt_simps)
  let ?data = "final_report dcorr (wfn_energy wA) (wfn_energy wB) elst exch ind fdds mp2"
  have D4: "data4 = ?data"
    by (simp add: d4 D3 D2 final_report_def)
  from publish_success [OF pb]
  obtain vs where
    p1: "print_sapt_dft_summary eng data4 (variables s5) = Inr vs"
    and s': "s' = s5\<lparr>variables := publish_all vs data4, trace := trace s5 @ [DftSummary data4, Tstop]\<rparr>"
    by blast
  have c1: "print_sapt_dft_summary eng ?data (hvs(''CURRENT ENERGY'' := wfn_energy wB)) = Inr vs"
    using p1 by (simp add: s5 V4 D4)
  have c2: "new_events s s' =
      [Tstart, PrepareOptions ''SAPT''] @ aux_evs @
      primary_events (alter_default (options s)) ?gA ?gB (monomerA_of ?d) (monomerB_of ?d) wA wB
        (opt_get (options s) ''SAPT'' ''SAPT_DFT_MP2_DISP_ALG'') ?data"
    by (simp add: s' s5 T4 O4 D4 keep new_events_def primary_events_def)
  have c3: "options s' = final_options (options s)"
    by (simp add: s' s5 O4)
  have c4: "variables s' = publish_all vs ?data"
    by (simp add: s' D4)
  have c5: "default_namespace s' = ''monomerB''" "active_molecule s' = active_molecule s"
    by (simp_all add: s' s5 N4 M4)
  show ?thesis
    apply (rule exI [of _ aux_evs], rule exI [of _ dcorr], rule exI [of _ hvs],
        rule exI [of _ wA], rule exI [of _ wB], rule exI [of _ c], rule exI [of _ elst],
        rule exI [of _ exch], rule exI [of _ ind], rule exI [of _ aux], rule exI [of _ fdds],
        rule exI [of _ mp2], rule exI [of _ vs])
    using vf kwn A t1 t2 t3 t4 t5 t6 t7 c1 c2 c3 c4 c5
    by (simp only: O4 keep keepg)
qed

lemma run_success_without_aux:
  assumes "run_sapt_dft eng name kw s = Inr (w, s')"
    and "\<not> truthy (opt_get (options s) ''SAPT'' ''SAPT_DFT_DO_DHF'')"
  obtains wA wB c elst exch ind aux fdds mp2 vs where
    "Wavefunction_build eng (the_dimer kw s) (opt_get_global (options s) ''BASIS'') = Inr w"
    "build_sapt_jk_cache eng wA wB (wfn_jk wB) = Inr c"
    "electrostatics eng c = Inr elst"
    "exchange eng c (wfn_jk wB) = Inr exch"
    "induction_term eng c (wfn_jk wB) (opt_get (options s) ''SAPT'' ''MAXITER'')
      (opt_get (options s) ''SAPT'' ''D_CONVERGENCE'') = Inr ind"
    "BasisSet_build eng (the_dimer kw s) ''DF_BASIS_MP2'' (opt_get (options s) ''DFMP2'' ''DF_BASIS_MP2'')
      ''RIFIT'' (opt_get_global (options s) ''BASIS'') = Inr aux"
    "df_fdds_dispersion eng (wfn_basisset wA) aux c = Inr fdds"
    "if opt_get (options s) ''SAPT'' ''SAPT_DFT_MP2_DISP_ALG'' = OStr ''FISAPT''
     then df_mp2_fisapt_dispersion eng wA (wfn_basisset wA) aux c = Inr mp2
     else df_mp2_sapt_dispersion eng w wA wB (wfn_basisset wA) aux c = Inr mp2"
    "print_sapt_dft_summary eng
      (final_report [] (wfn_energy wA) (wfn_energy wB) elst exch ind fdds mp2)
      ((variables s)(''CURRENT ENERGY'' := wfn_energy wB)) = Inr vs"
    "new_events s s' =
      [Tstart, PrepareOptions ''SAPT''] @ [Call ''core.Wavefunction.build''] @
      primary_events (alter_default (options s))
        (if truthy (opt_get (options s) ''SAPT'' ''SAPT_DFT_GRAC_SHIFT_A'')
         then opt_get (options s) ''SAPT'' ''SAPT_DFT_GRAC_SHIFT_A''
         else opt_get_global (options s) ''DFT_GRAC_SHIFT'')
        (if truthy (opt_get (options s) ''SAPT'' ''SAPT_DFT_GRAC_SHIFT_B'')
         then opt_get (options s) ''SAPT'' ''SAPT_DFT_GRAC_SHIFT_B''
         else ONum 0)
        (monomerA_of (the_dimer kw s)) (monomerB_of (the_dimer kw s)) wA wB
        (opt_get (options s) ''SAPT'' ''SAPT_DFT_MP2_DISP_ALG'')
        (final_report [] (wfn_energy wA) (wfn_energy wB) elst exch ind fdds mp2)"
    "variables s' =
      publish_all vs (final_report [] (wfn_energy wA) (wfn_energy wB) elst exch ind fdds mp2)"
  using run_success [OF assms(1)] assms(2)
  apply (simp only: if_False)
  apply (elim exE conjE)
  apply hypsubst
  apply (rule that; assumption)
  done

lemma run_success_with_aux:
  assumes "run_sapt_dft eng name kw s = Inr (w, s')"
    and "truthy (opt_get (options s) ''SAPT'' ''SAPT_DFT_DO_DHF'')"
  obtains wa wb c' elst' exch' ind' e1 e2 e3 hvs wA wB c elst exch ind aux fdds mp2 vs where
    "build_sapt_jk_cache eng wa wb (wfn_jk wb) = Inr c'"
    "electrostatics eng c' = Inr elst'"
    "exchange eng c' (wfn_jk wb) = Inr exch'"
    "induction_term eng c' (wfn_jk wb) (opt_get (options s) ''SAPT'' ''MAXITER'')
       (opt_get (options s) ''SAPT'' ''D_CONVERGENCE'') = Inr ind'"
    "map_of (hf_mapping (wfn_energy w) (wfn_energy wa) (wfn_energy wb) elst' exch' ind') ''HF DIMER'' = Some e1"
    "map_of (hf_mapping (wfn_energy w) (wfn_energy wa) (wfn_energy wb) elst' exch' ind') ''HF MONOMER A'' = Some e2"
    "map_of (hf_mapping (wfn_energy w) (wfn_energy wa) (wfn_energy wb) elst' exch' ind') ''HF MONOMER B'' = Some e3"
    "print_sapt_hf_summary eng (hf_mapping (wfn_energy w) (wfn_energy wa) (wfn_energy wb) elst' exch' ind')
       (e1 - e2 - e3) ((variables s)(''CURRENT ENERGY'' := wfn_energy wb)) = Inr hvs"
    "build_sapt_jk_cache eng wA wB (wfn_jk wB) = Inr c"
    "electrostatics eng c = Inr elst"
    "exchange eng c (wfn_jk wB) = Inr exch"
    "induction_term eng c (wfn_jk wB) (opt_get (options s) ''SAPT'' ''MAXITER'')
      (opt_get (options s) ''SAPT'' ''D_CONVERGENCE'') = Inr ind"
    "BasisSet_build eng (the_dimer kw s) ''DF_BASIS_MP2'' (opt_get (options s) ''DFMP2'' ''DF_BASIS_MP2'')
      ''RIFIT'' (opt_get_global (options s) ''BASIS'') = Inr aux"
    "df_fdds_dispersion eng (wfn_basisset wA) aux c = Inr fdds"
    "if opt_get (options s) ''SAPT'' ''SAPT_DFT_MP2_DISP_ALG'' = OStr ''FISAPT''
     then df_mp2_fisapt_dispersion eng wA (wfn_basisset wA) aux c = Inr mp2
     else df_mp2_sapt_dispersion eng w wA wB (wfn_basisset wA) aux c = Inr mp2"
    "print_sapt_dft_summary eng
      (final_report [(''Delta HF Correction'', hvs ''SAPT(DFT) Delta HF'')]
         (wfn_energy wA) (wfn_energy wB) elst exch ind fdds mp2)
      (hvs(''CURRENT ENERGY'' := wfn_energy wB)) = Inr vs"
    "new_events s s' =
      [Tstart, PrepareOptions ''SAPT''] @
      aux_events (alter_default (options s)) (opt_get_global (options s) ''DFT_GRAC_SHIFT'')
        (the_dimer kw s) (monomerA_of (the_dimer kw s)) (monomerB_of (the_dimer kw s)) w wa wb
        (hf_mapping (wfn_energy w) (wfn_energy wa) (wfn_energy wb) elst' exch' ind') (e1 - e2 - e3) @
      primary_events (alter_default (options s))
        (if truthy (opt_get (options s) ''SAPT'' ''SAPT_DFT_GRAC_SHIFT_A'')
         then opt_get (options s) ''SAPT'' ''SAPT_DFT_GRAC_SHIFT_A''
         else opt_get_global (options s) ''DFT_GRAC_SHIFT'')
        (if truthy (opt_get (options s) ''SAPT'' ''SAPT_DFT_GRAC_SHIFT_B'')
         then opt_get (options s) ''SAPT'' ''SAPT_DFT_GRAC_SHIFT_B''
         else ONum 0)
        (monomerA_of (the_dimer kw s)) (monomerB_of (the_dimer kw s)) wA wB
        (opt_get (options s) ''SAPT'' ''SAPT_DFT_MP2_DISP_ALG'')
        (final_report [(''Delta HF Correction'', hvs ''SAPT(DFT) Delta HF'')]
           (wfn_energy wA) (wfn_energy wB) elst exch ind fdds mp2)"
    "variables s' =
      publish_all vs (final_report [(''Delta HF Correction'', hvs ''SAPT(DFT) Delta HF'')]
         (wfn_energy wA) (wfn_energy wB) elst exch ind fdds mp2)"
  using run_success [OF assms(1)] assms(2)
  apply (simp only: if_True)
  apply (elim exE conjE)
  apply hypsubst
  apply (rule that; assumption)
  done

lemma run_success_options:
  assumes "run_sapt_dft eng name kw s = Inr (w, s')"
  shows "options s' = final_options (options s)"
  using run_success [OF assms] by (elim exE conjE)

lemma run_success_validated:
  assumes "run_sapt_dft eng name kw s = Inr (w, s')"
  shows "validation_failure (alter_default (options s)) (the_dimer kw s) = None"
  using run_success [OF assms] by (elim exE conjE)

subsection \<open>Reading a trace\<close>

lemma view_relabel_events:
  "concat (map step_of (relabel_events os old new)) = relabel_steps os old new"
  "concat (map scf_banner_of (relabel_events os old new)) = []"
  "concat (map shift_seen_of (relabel_events os old new)) = []"
  "concat (map scf_return_of (relabel_events os old new)) = []"
  "concat (map call_of (relabel_events os old new)) = []"
  "concat (map hf_summary_of (relabel_events os old new)) = []"
  "concat (map report_of (relabel_events os old new)) = []"
  by (simp_all add: relabel_events_def relabel_steps_def)

lemmas view_defs =
  steps_def scf_banners_def shifts_seen_def scf_returns_def calls_def hf_summaries_def reports_def

lemmas view_simps = view_defs aux_events_def primary_events_def view_relabel_events

lemma mol_name_monomers:
  "mol_name (monomerA_of d) = ''monomerA''" "mol_name (monomerB_of d) = ''monomerB''"
  by (simp_all add: monomerA_of_def monomerB_of_def set_name_def)

lemma run_success_steps:
  assumes "run_sapt_dft eng name kw s = Inr (w, s')"
  shows "steps (new_events s s') =
     (if truthy (opt_get (options s) ''SAPT'' ''SAPT_DFT_DO_DHF'')
      then [SubCalc ''SAPT(DFT): delta HF Dimer'' (mol_name (the_dimer kw s))] @
           relabel_steps (alter_default (options s)) ''dimer'' ''monomerA'' @
           [SubCalc ''SAPT(DFT): delta HF Monomer A'' ''monomerA''] @
           relabel_steps (alter_default (options s)) ''monomerA'' ''monomerB'' @
           [SubCalc ''SAPT(DFT): delta HF Monomer B'' ''monomerB''] @
           relabel_steps (alter_default (options s)) ''monomerB'' ''dimer''
      else []) @
     relabel_steps (alter_default (options s)) ''dimer'' ''monomerA'' @
     [SubCalc ''SAPT(DFT): DFT Monomer A'' ''monomerA''] @
     relabel_steps (alter_default (options s)) ''monomerA'' ''monomerB'' @
     [SubCalc ''SAPT(DFT): DFT Monomer B'' ''monomerB'']"
proof (cases "truthy (opt_get (options s) ''SAPT'' ''SAPT_DFT_DO_DHF'')")
  case True
  from assms True show ?thesis
  proof (rule run_success_with_aux, goal_cases)
    case (1 wa wb c' elst' exch' ind' e1 e2 e3 hvs wA wB c elst exch ind aux fdds mp2 vs)
    from True show ?case
      by (simp add: "1"(17) view_simps mol_name_monomers)
  qed
next
  case False
  from assms False show ?thesis
  proof (rule run_success_without_aux, goal_cases)
    case (1 wA wB c elst exch ind aux fdds mp2 vs)
    from False show ?case
      by (simp add: "1"(10) view_simps mol_name_monomers)
  qed
qed

lemma run_success_banners:
  assumes "run_sapt_dft eng name kw s = Inr (w, s')"
  shows "scf_banners (new_events s s') =
     (if truthy (opt_get (options s) ''SAPT'' ''SAPT_DFT_DO_DHF'')
      then [''SAPT(DFT): delta HF Dimer'', ''SAPT(DFT): delta HF Monomer A'',
            ''SAPT(DFT): delta HF Monomer B'']
      else []) @
     [''SAPT(DFT): DFT Monomer A'', ''SAPT(DFT): DFT Monomer B'']"
proof (cases "truthy (opt_get (options s) ''SAPT'' ''SAPT_DFT_DO_DHF'')")
  case True
  from assms True show ?thesis
  proof (rule run_success_with_aux, goal_cases)
    case (1 wa wb c' elst' exch' ind' e1 e2 e3 hvs wA wB c elst exch ind aux fdds mp2 vs)
    from True show ?case
      by (simp add: "1"(17) view_simps)
  qed
next
  case False
  from assms False show ?thesis
  proof (rule run_success_without_aux, goal_cases)
    case (1 wA wB c elst exch ind aux fdds mp2 vs)
    from False show ?case
      by (simp add: "1"(10) view_simps)
  qed
qed

subsection \<open>The concrete runs\<close>

lemma succeededE:
  assumes "succeeded r"
  obtains a s' where "r = Inr (a, s')"
  using assms by (cases r) (auto simp add: succeeded_def)

lemma outcome_Inr:
  "succeeded (Inr (a, s'))" "returned (Inr (a, s')) = Some a" "final_state (Inr (a, s')) = s'"
  by (simp_all add: succeeded_def returned_def final_state_def)

lemma outcome_Inl:
  "\<not> succeeded (Inl (e, s'))" "returned (Inl (e, s')) = None" "final_state (Inl (e, s')) = s'"
  by (simp_all add: succeeded_def returned_def final_state_def)

lemma demo_options_lookups:
  "opt_get demo_options ''SAPT'' ''SAPT_DFT_GRAC_SHIFT_A'' = ONum (1 / 4)"
  "opt_get demo_options ''SAPT'' ''SAPT_DFT_GRAC_SHIFT_B'' = ONum (1 / 8)"
  "opt_get demo_options ''SAPT'' ''SAPT_DFT_DO_DHF'' = OBool True"
  "opt_get demo_options ''SAPT'' ''SAPT_DFT_FUNCTIONAL'' = OStr ''PBE0''"
  "opt_get demo_options ''SAPT'' ''SAPT_DFT_MP2_DISP_ALG'' = OStr ''SAPT''"
  "opt_get demo_options ''SAPT'' ''MAXITER'' = OStr []"
  "opt_get demo_options ''SAPT'' ''D_CONVERGENCE'' = OStr []"
  "opt_get demo_options ''DFMP2'' ''DF_BASIS_MP2'' = OStr []"
  "opt_get demo_options ''SCF'' ''REFERENCE'' = OStr ''RHF''"
  "opt_get demo_options ''SCF'' ''SCF_TYPE'' = OStr ''PK''"
  "opt_get demo_options ''SCF'' ''DFT_FUNCTIONAL'' = OStr []"
  "opt_get demo_options ''SCF'' ''DFT_GRAC_SHIFT'' = ONum 0"
  "opt_get demo_options ''SCF'' ''SAVE_JK'' = OBool False"
  "opt_has_changed demo_options ''SCF'' ''SCF_TYPE'' = False"
  "opt_get_global demo_options ''BASIS'' = OStr ''CC-PVDZ''"
  "opt_get_global demo_options ''DFT_GRAC_SHIFT'' = ONum 0"
  by (simp_all add: demo_opt_defs)

lemma demo_options_no_dhf_lookups:
  "opt_get demo_options_no_dhf ''SAPT'' ''SAPT_DFT_GRAC_SHIFT_A'' = ONum (1 / 4)"
  "opt_get demo_options_no_dhf ''SAPT'' ''SAPT_DFT_GRAC_SHIFT_B'' = ONum (1 / 8)"
  "opt_get demo_options_no_dhf ''SAPT'' ''SAPT_DFT_DO_DHF'' = OBool False"
  "opt_get demo_options_no_dhf ''SAPT'' ''SAPT_DFT_FUNCTIONAL'' = OStr ''PBE0''"
  "opt_get demo_options_no_dhf ''SAPT'' ''SAPT_DFT_MP2_DISP_ALG'' = OStr ''SAPT''"
  "opt_get demo_options_no_dhf ''SAPT'' ''MAXITER'' = OStr []"
  "opt_get demo_options_no_dhf ''SAPT'' ''D_CONVERGENCE'' = OStr []"
  "opt_get demo_options_no_dhf ''DFMP2'' ''DF_BASIS_MP2'' = OStr []"
  "opt_get demo_options_no_dhf ''SCF'' ''REFERENCE'' = OStr ''RHF''"
  "opt_get demo_options_no_dhf ''SCF'' ''SCF_TYPE'' = OStr ''PK''"
  "opt_get demo_options_no_dhf ''SCF'' ''DFT_FUNCTIONAL'' = OStr []"
  "opt_get demo_options_no_dhf ''SCF'' ''DFT_GRAC_SHIFT'' = ONum 0"
  "opt_get demo_options_no_dhf ''SCF'' ''SAVE_JK'' = OBool False"
  "opt_has_changed demo_options_no_dhf ''SCF'' ''SCF_TYPE'' = False"
  "opt_get_global demo_options_no_dhf ''BASIS'' = OStr ''CC-PVDZ''"
  "opt_get_global demo_options_no_dhf ''DFT_GRAC_SHIFT'' = ONum 0"
  by (simp_all add: demo_opt_defs)

lemma demo_options_no_shift_lookups:
  "opt_get demo_options_no_shift ''SAPT'' ''SAPT_DFT_GRAC_SHIFT_A'' = ONum 0"
  "opt_get demo_options_no_shift ''SAPT'' ''SAPT_DFT_GRAC_SHIFT_B'' = ONum (1 / 8)"
  "opt_get demo_options_no_shift ''SAPT'' ''SAPT_DFT_DO_DHF'' = OBool True"
  "opt_get demo_options_no_shift ''SAPT'' ''SAPT_DFT_FUNCTIONAL'' = OStr ''PBE0''"
  "opt_get demo_options_no_shift ''SAPT'' ''SAPT_DFT_MP2_DISP_ALG'' = OStr ''SAPT''"
  "opt_get demo_options_no_shift ''SAPT'' ''MAXITER'' = OStr []"
  "opt_get demo_options_no_shift ''SAPT'' ''D_CONVERGENCE'' = OStr []"
  "opt_get demo_options_no_shift ''DFMP2'' ''DF_BASIS_MP2'' = OStr []"
  "opt_get demo_options_no_shift ''SCF'' ''REFERENCE'' = OStr ''RHF''"
  "opt_get demo_options_no_shift ''SCF'' ''SCF_TYPE'' = OStr ''PK''"
  "opt_get demo_options_no_shift ''SCF'' ''DFT_FUNCTIONAL'' = OStr []"
  "opt_get demo_options_no_shift ''SCF'' ''DFT_GRAC_SHIFT'' = ONum 0"
  "opt_get demo_options_no_shift ''SCF'' ''SAVE_JK'' = OBool False"
  "opt_has_changed demo_options_no_shift ''SCF'' ''SCF_TYPE'' = False"
  "opt_get_global demo_options_no_shift ''BASIS'' = OStr ''CC-PVDZ''"
  "opt_get_global demo_options_no_shift ''DFT_GRAC_SHIFT'' = ONum 0"
  by (simp_all add: demo_opt_defs)

lemma demo_options_pk_lookups:
  "opt_get demo_options_pk ''SAPT'' ''SAPT_DFT_GRAC_SHIFT_A'' = ONum (1 / 4)"
  "opt_get demo_options_pk ''SAPT'' ''SAPT_DFT_GRAC_SHIFT_B'' = ONum (1 / 8)"
  "opt_get demo_options_pk ''SAPT'' ''SAPT_DFT_DO_DHF'' = OBool True"
  "opt_get demo_options_pk ''SAPT'' ''SAPT_DFT_FUNCTIONAL'' = OStr ''PBE0''"
  "opt_get demo_options_pk ''SAPT'' ''SAPT_DFT_MP2_DISP_ALG'' = OStr ''SAPT''"
  "opt_get demo_options_pk ''SAPT'' ''MAXITER'' = OStr []"
  "opt_get demo_options_pk ''SAPT'' ''D_CONVERGENCE'' = OStr []"
  "opt_get demo_options_pk ''DFMP2'' ''DF_BASIS_MP2'' = OStr []"
  "opt_get demo_options_pk ''SCF'' ''REFERENCE'' = OStr ''RHF''"
  "opt_get demo_options_pk ''SCF'' ''SCF_TYPE'' = OStr ''PK''"
  "opt_get demo_options_pk ''SCF'' ''DFT_FUNCTIONAL'' = OStr []"
  "opt_get demo_options_pk ''SCF'' ''DFT_GRAC_SHIFT'' = ONum 0"
  "opt_get demo_options_pk ''SCF'' ''SAVE_JK'' = OBool False"
  "opt_has_changed demo_options_pk ''SCF'' ''SCF_TYPE'' = True"
  "opt_get_global demo_options_pk ''BASIS'' = OStr ''CC-PVDZ''"
  "opt_get_global demo_options_pk ''DFT_GRAC_SHIFT'' = ONum 0"
  by (simp_all add: demo_opt_defs)

lemmas demo_lookups =
  demo_options_lookups demo_options_no_dhf_lookups demo_options_no_shift_lookups demo_options_pk_lookups

lemmas stage_defs = sapt_passes_def delta_hf_pass_def primary_settings_def dft_monomer_A_def
  dft_monomer_B_def interaction_terms_def publish_def

lemmas demo_defs =
  demo_state_def demo_state_no_dhf_def demo_state_no_shift_def demo_state_pk_def
  demo_kwargs_def demo_kwargs_trimer_def demo_engine_def demo_engine_failing_def demo_scf_def
  demo_dimer_def

lemmas eval_simps =
  run_sapt_dft_unfold stage_defs action_simps core_simps opt_simps bnd_set_variables
  validation_failure_def alter_default_def opt_get_set_local_same the_dimer_def the_kwargs_def
  prepared_def entered_def relabel_events_def save_df_ints_def hf_mapping_def
  dict_update_def demo_lookups demo_defs

lemma demo_run_succeeds:
  "succeeded (run_sapt_dft demo_engine ''sapt(dft)'' demo_kwargs demo_state)"
  by (simp add: eval_simps succeeded_def)

lemma demo_no_dhf_run_succeeds:
  "succeeded (run_sapt_dft demo_engine ''sapt(dft)'' demo_kwargs demo_state_no_dhf)"
  by (simp add: eval_simps succeeded_def)

lemma demo_pk_run_succeeds:
  "succeeded (run_sapt_dft demo_engine ''sapt(dft)'' demo_kwargs demo_state_pk)"
  by (simp add: eval_simps succeeded_def)

lemma demo_state_fields:
  "options demo_state = demo_options"
  "options demo_state_no_dhf = demo_options_no_dhf"
  "options demo_state_no_shift = demo_options_no_shift"
  "options demo_state_pk = demo_options_pk"
  "trace demo_state = []" "trace demo_state_no_dhf = []"
  "trace demo_state_no_shift = []" "trace demo_state_pk = []"
  "variables demo_state = (\<lambda>_. 0)" "variables demo_state_no_dhf = (\<lambda>_. 0)"
  "variables demo_state_no_shift = (\<lambda>_. 0)" "variables demo_state_pk = (\<lambda>_. 0)"
  "active_molecule demo_state = demo_dimer" "active_molecule demo_state_no_dhf = demo_dimer"
  "active_molecule demo_state_no_shift = demo_dimer" "active_molecule demo_state_pk = demo_dimer"
  by (simp_all add: demo_state_def demo_state_no_dhf_def demo_state_no_shift_def demo_state_pk_def)

lemma demo_the_dimer:
  "the_dimer demo_kwargs s =
     (active_molecule s)\<lparr>mol_point_group := ''c1'', mol_fix_orientation := True, mol_fix_com := True\<rparr>"
  "the_kwargs demo_kwargs = demo_kwargs"
  by (simp_all add: the_dimer_def the_kwargs_def demo_kwargs_def)

lemmas demo_simps =
  demo_state_fields demo_the_dimer demo_lookups demo_dimer_def relabel_steps_def relabel_events_def
  opt_get_alter_default_scf_type outcome_Inr

section \<open>The claims about the stage scheduler\<close>

text \<open>
  C2, counterexample. With the auxiliary pass switched off, the run of the concrete input
  returns after two sub-calculations, monomer A and monomer B: the primary pass has no
  dimer sub-calculation.
\<close>

theorem C2_counterexample:
  "succeeded (run_sapt_dft demo_engine ''sapt(dft)'' demo_kwargs demo_state_no_dhf) \<and>
   steps (new_events demo_state_no_dhf
     (final_state (run_sapt_dft demo_engine ''sapt(dft)'' demo_kwargs demo_state_no_dhf))) =
     [Relabel ''dimer'' ''monomerA'', SubCalc ''SAPT(DFT): DFT Monomer A'' ''monomerA'',
      Relabel ''monomerA'' ''monomerB'', SubCalc ''SAPT(DFT): DFT Monomer B'' ''monomerB'']"
proof -
  from demo_no_dhf_run_succeeds obtain w s' where
    r: "run_sapt_dft demo_engine ''sapt(dft)'' demo_kwargs demo_state_no_dhf = Inr (w, s')"
    by (rule succeededE)
  from run_success_steps [OF r] show ?thesis
    by (simp add: r demo_simps)
qed

text \<open>
  C2, as amended. In every run that returns, the auxiliary pass (when its flag is set)
  performs three sub-calculations in the order dimer, monomer A, monomer B, and the primary
  pass performs two, monomer A then monomer B. When \<open>SCF_TYPE\<close> is \<open>DF\<close> the
  namespace is relabeled dimer to monomerA and monomerA to monomerB before the monomers of
  either pass, and monomerB to dimer only after the auxiliary pass; otherwise it is never
  relabeled.
\<close>

theorem C2_schedule:
  assumes "run_sapt_dft eng name kw s = Inr (w, s')"
  shows "steps (new_events s s') =
     (if truthy (opt_get (options s) ''SAPT'' ''SAPT_DFT_DO_DHF'')
      then [SubCalc ''SAPT(DFT): delta HF Dimer'' (mol_name (the_dimer kw s))] @
           relabel_steps (alter_default (options s)) ''dimer'' ''monomerA'' @
           [SubCalc ''SAPT(DFT): delta HF Monomer A'' ''monomerA''] @
           relabel_steps (alter_default (options s)) ''monomerA'' ''monomerB'' @
           [SubCalc ''SAPT(DFT): delta HF Monomer B'' ''monomerB''] @
           relabel_steps (alter_default (options s)) ''monomerB'' ''dimer''
      else []) @
     relabel_steps (alter_default (options s)) ''dimer'' ''monomerA'' @
     [SubCalc ''SAPT(DFT): DFT Monomer A'' ''monomerA''] @
     relabel_steps (alter_default (options s)) ''monomerA'' ''monomerB'' @
     [SubCalc ''SAPT(DFT): DFT Monomer B'' ''monomerB'']"
  using assms by (rule run_success_steps)

theorem C2_schedule_witness:
  "succeeded (run_sapt_dft demo_engine ''sapt(dft)'' demo_kwargs demo_state) \<and>
   steps (new_events demo_state
     (final_state (run_sapt_dft demo_engine ''sapt(dft)'' demo_kwargs demo_state))) =
     [SubCalc ''SAPT(DFT): delta HF Dimer'' ''water_dimer'', Relabel ''dimer'' ''monomerA'',
      SubCalc ''SAPT(DFT): delta HF Monomer A'' ''monomerA'', Relabel ''monomerA'' ''monomerB'',
      SubCalc ''SAPT(DFT): delta HF Monomer B'' ''monomerB'', Relabel ''monomerB'' ''dimer'',
      Relabel ''dimer'' ''monomerA'', SubCalc ''SAPT(DFT): DFT Monomer A'' ''monomerA'',
      Relabel ''monomerA'' ''monomerB'', SubCalc ''SAPT(DFT): DFT Monomer B'' ''monomerB'']"
proof -
  from demo_run_succeeds obtain w s' where
    r: "run_sapt_dft demo_engine ''sapt(dft)'' demo_kwargs demo_state = Inr (w, s')"
    by (rule succeededE)
  from C2_schedule [OF r] show ?thesis
    by (simp add: r demo_simps)
qed

lemma demo_engine_fields:
  "scf_helper demo_engine = demo_scf"
  "Wavefunction_build demo_engine mol basis =
     Inr \<lparr>wfn_molecule = mol, wfn_energy = 0, wfn_basisset = ''CC-PVDZ'', wfn_jk = 0\<rparr>"
  "electrostatics demo_engine cache = Inr [(''Elst10,r'', - 2)]"
  "exchange demo_engine cache jk = Inr [(''Exch10'', 3), (''Exch10(S^2)'', 3)]"
  "induction_term demo_engine cache jk maxiter conv = Inr [(''Ind20,r'', - 1)]"
  by (simp_all add: demo_engine_def)

lemma run_success_returned:
  assumes "run_sapt_dft eng name kw s = Inr (w, s')"
  shows "if truthy (opt_get (options s) ''SAPT'' ''SAPT_DFT_DO_DHF'')
         then map_of (scf_returns (new_events s s')) ''SAPT(DFT): delta HF Dimer'' = Some w
         else Wavefunction_build eng (the_dimer kw s) (opt_get_global (options s) ''BASIS'') = Inr w"
proof (cases "truthy (opt_get (options s) ''SAPT'' ''SAPT_DFT_DO_DHF'')")
  case True
  from assms True show ?thesis
  proof (rule run_success_with_aux, goal_cases)
    case (1 wa wb c' elst' exch' ind' e1 e2 e3 hvs wA wB c elst exch ind aux fdds mp2 vs)
    from True show ?case
      by (simp add: "1"(17) view_simps)
  qed
next
  case False
  from assms False show ?thesis
  proof (rule run_success_without_aux, goal_cases)
    case (1 wA wB c elst exch ind aux fdds mp2 vs)
    from False "1"(1) show ?case
      by simp
  qed
qed

text \<open>
  C3, counterexample. With the auxiliary pass switched off, the run of the concrete input
  returns the object made by \<open>core.Wavefunction.build\<close> (energy 0 in the concrete
  engine); the only sub-calculations of the run are the two monomers, so no dimer
  sub-calculation of the primary pass produced what is returned.
\<close>

theorem C3_counterexample:
  "returned (run_sapt_dft demo_engine ''sapt(dft)'' demo_kwargs demo_state_no_dhf) =
     Some \<lparr>wfn_molecule =
             demo_dimer\<lparr>mol_point_group := ''c1'', mol_fix_orientation := True, mol_fix_com := True\<rparr>,
           wfn_energy = 0, wfn_basisset = ''CC-PVDZ'', wfn_jk = 0\<rparr> \<and>
   scf_banners (new_events demo_state_no_dhf
     (final_state (run_sapt_dft demo_engine ''sapt(dft)'' demo_kwargs demo_state_no_dhf))) =
     [''SAPT(DFT): DFT Monomer A'', ''SAPT(DFT): DFT Monomer B'']"
proof -
  from demo_no_dhf_run_succeeds obtain w s' where
    r: "run_sapt_dft demo_engine ''sapt(dft)'' demo_kwargs demo_state_no_dhf = Inr (w, s')"
    by (rule succeededE)
  from run_success_returned [OF r] run_success_banners [OF r] show ?thesis
    by (auto simp add: r demo_simps demo_engine_fields)
qed

text \<open>
  C3, as amended. A run that returns gives back the dimer wavefunction of the auxiliary
  pass when that pass ran (the first \<open>scf_helper\<close> result of the run), and otherwise the
  object built by \<open>core.Wavefunction.build\<close> from the dimer and the global \<open>BASIS\<close>;
  in both cases the sub-calculations of the primary pass are the two monomers only.
\<close>

theorem C3_returned_wavefunction:
  assumes "run_sapt_dft eng name kw s = Inr (w, s')"
  shows "(if truthy (opt_get (options s) ''SAPT'' ''SAPT_DFT_DO_DHF'')
          then map_of (scf_returns (new_events s s')) ''SAPT(DFT): delta HF Dimer'' = Some w
          else Wavefunction_build eng (the_dimer kw s) (opt_get_global (options s) ''BASIS'') = Inr w) \<and>
         scf_banners (new_events s s') =
           (if truthy (opt_get (options s) ''SAPT'' ''SAPT_DFT_DO_DHF'')
            then [''SAPT(DFT): delta HF Dimer'', ''SAPT(DFT): delta HF Monomer A'',
                  ''SAPT(DFT): delta HF Monomer B'']
            else []) @
           [''SAPT(DFT): DFT Monomer A'', ''SAPT(DFT): DFT Monomer B'']"
  using run_success_returned [OF assms] run_success_banners [OF assms] by simp

theorem C3_returned_wavefunction_witness:
  "succeeded (run_sapt_dft demo_engine ''sapt(dft)'' demo_kwargs demo_state) \<and>
   map_of (scf_returns (new_events demo_state
       (final_state (run_sapt_dft demo_engine ''sapt(dft)'' demo_kwargs demo_state))))
     ''SAPT(DFT): delta HF Dimer'' =
   returned (run_sapt_dft demo_engine ''sapt(dft)'' demo_kwargs demo_state)"
proof -
  from demo_run_succeeds obtain w s' where
    r: "run_sapt_dft demo_engine ''sapt(dft)'' demo_kwargs demo_state = Inr (w, s')"
    by (rule succeededE)
  from C3_returned_wavefunction [OF r] show ?thesis
    by (simp add: r demo_simps)
qed

section \<open>The claims about the configuration\<close>

lemma demo_global_lookups:
  "opt_get_global demo_options ''SAVE_JK'' = OBool False"
  "opt_get_global demo_options ''DFT_FUNCTIONAL'' = OStr []"
  by (simp_all add: demo_opt_defs)

text \<open>
  C1. The function takes the snapshot \<open>optstash\<close> at entry and never restores it. The
  run of the concrete input returns, and leaves \<open>REFERENCE\<close> at \<open>RKS\<close> (it was
  \<open>RHF\<close>, as the validation demands), \<open>SCF_TYPE\<close> at \<open>DF\<close> (it was \<open>PK\<close>),
  and the global \<open>SAVE_JK\<close> and \<open>DFT_FUNCTIONAL\<close> at \<open>True\<close> and \<open>PBE0\<close>.
\<close>

theorem C1_snapshot_not_restored:
  "succeeded (run_sapt_dft demo_engine ''sapt(dft)'' demo_kwargs demo_state) \<and>
   opt_get (options demo_state) ''SCF'' ''REFERENCE'' = OStr ''RHF'' \<and>
   opt_get (options (final_state (run_sapt_dft demo_engine ''sapt(dft)'' demo_kwargs demo_state)))
     ''SCF'' ''REFERENCE'' = OStr ''RKS'' \<and>
   opt_get (options demo_state) ''SCF'' ''SCF_TYPE'' = OStr ''PK'' \<and>
   opt_get (options (final_state (run_sapt_dft demo_engine ''sapt(dft)'' demo_kwargs demo_state)))
     ''SCF'' ''SCF_TYPE'' = OStr ''DF'' \<and>
   opt_get_global (options demo_state) ''SAVE_JK'' = OBool False \<and>
   opt_get_global (options (final_state (run_sapt_dft demo_engine ''sapt(dft)'' demo_kwargs demo_state)))
     ''SAVE_JK'' = OBool True \<and>
   opt_get_global (options demo_state) ''DFT_FUNCTIONAL'' = OStr [] \<and>
   opt_get_global (options (final_state (run_sapt_dft demo_engine ''sapt(dft)'' demo_kwargs demo_state)))
     ''DFT_FUNCTIONAL'' = OStr ''PBE0''"
proof -
  from demo_run_succeeds obtain w s' where
    r: "run_sapt_dft demo_engine ''sapt(dft)'' demo_kwargs demo_state = Inr (w, s')"
    by (rule succeededE)
  from run_success_options [OF r] show ?thesis
    by (simp add: r demo_simps demo_global_lookups final_options_def opt_simps opt_get_set_local_same)
qed

text \<open>
  C5, counterexample. A molecule of three fragments: the run raises the validation error of
  line 117, and \<open>SCF_TYPE\<close>, which was \<open>PK\<close>, is \<open>DF\<close> afterwards.
\<close>

theorem C5_counterexample:
  "run_sapt_dft demo_engine ''sapt(dft)'' demo_kwargs_trimer demo_state =
     Inl (ValidationError ''SAPT requires active molecule to have 2 fragments, not 3.'',
          entered demo_state) \<and>
   opt_get (options demo_state) ''SCF'' ''SCF_TYPE'' = OStr ''PK'' \<and>
   opt_get (options (entered demo_state)) ''SCF'' ''SCF_TYPE'' = OStr ''DF''"
  by (simp add: run_sapt_dft_unfold validation_failure_def opt_simps demo_simps entered_def
        the_dimer_def demo_kwargs_trimer_def)

text \<open>
  C5, as amended. When the dimer does not have two fragments the run raises a
  \<open>ValidationError\<close> in the state reached after line 57: nothing has been computed, the
  variable store is untouched, and the option store differs from the one at entry only in
  \<open>SCF_TYPE\<close> of module \<open>SCF\<close>, set to \<open>DF\<close> when the caller had not changed it.
\<close>

theorem C5_fragment_count:
  assumes "mol_nfragments (the_dimer kw s) \<noteq> 2"
  shows "(\<exists>msg. run_sapt_dft eng name kw s = Inl (ValidationError msg, entered s)) \<and>
         options (entered s) =
           (if opt_has_changed (options s) ''SCF'' ''SCF_TYPE'' then options s
            else opt_set_local ''SCF'' ''SCF_TYPE'' (OStr ''DF'') (options s)) \<and>
         variables (entered s) = variables s \<and>
         new_events s (entered s) = [Tstart, PrepareOptions ''SAPT'']"
  using assms
  by (simp add: run_sapt_dft_unfold validation_failure_def entered_def alter_default_def
        new_events_def)

theorem C5_fragment_count_witness:
  "mol_nfragments (the_dimer demo_kwargs_trimer demo_state) = 3 \<and>
   (\<exists>msg. run_sapt_dft demo_engine ''sapt(dft)'' demo_kwargs_trimer demo_state =
            Inl (ValidationError msg, entered demo_state)) \<and>
   options (entered demo_state) = opt_set_local ''SCF'' ''SCF_TYPE'' (OStr ''DF'') demo_options \<and>
   variables (entered demo_state) = variables demo_state"
proof -
  have n: "mol_nfragments (the_dimer demo_kwargs_trimer demo_state) = 3"
    by (simp add: the_dimer_def demo_kwargs_trimer_def)
  then have "mol_nfragments (the_dimer demo_kwargs_trimer demo_state) \<noteq> 2"
    by simp
  from C5_fragment_count [OF this, of demo_engine "''sapt(dft)''"] n show ?thesis
    by (simp add: demo_simps)
qed

section \<open>The claims about the report\<close>

subsection \<open>Dicts\<close>

lemma dict_update_Nil: "dict_update d [] = d"
  by (simp add: dict_update_def)

lemma dict_update_Cons: "dict_update d (kv # e) = dict_update (AList.update (fst kv) (snd kv) d) e"
  by (simp add: dict_update_def)

lemma keys_dict_update: "fst ` set (dict_update d e) = fst ` set d \<union> fst ` set e"
proof (induction e arbitrary: d)
  case Nil
  show ?case by (simp add: dict_update_Nil)
next
  case (Cons kv e)
  show ?case by (auto simp add: dict_update_Cons Cons.IH dom_update)
qed

lemma map_of_dict_update_other:
  "k \<notin> fst ` set e \<Longrightarrow> map_of (dict_update d e) k = map_of d k"
proof (induction e arbitrary: d)
  case Nil
  show ?case by (simp add: dict_update_Nil)
next
  case (Cons kv e)
  then show ?case by (simp add: dict_update_Cons update_conv')
qed

lemma distinct_dict_update:
  "distinct (map fst d) \<Longrightarrow> distinct (map fst (dict_update d e))"
proof (induction e arbitrary: d)
  case Nil
  then show ?case by (simp add: dict_update_Nil)
next
  case (Cons kv e)
  then show ?case by (simp add: dict_update_Cons distinct_update)
qed

lemma publish_all_other: "k \<notin> fst ` set d \<Longrightarrow> publish_all vs d k = vs k"
  by (induction d arbitrary: vs) (auto simp add: publish_all_simps)

lemma publish_all_distinct:
  "distinct (map fst d) \<Longrightarrow> (k, v) \<in> set d \<Longrightarrow> publish_all vs d k = v"
proof (induction d arbitrary: vs)
  case Nil
  then show ?case by simp
next
  case (Cons kv d)
  show ?case
  proof (cases "kv = (k, v)")
    case True
    with Cons.prems have "k \<notin> fst ` set d"
      by auto
    with True show ?thesis
      by (simp add: publish_all_simps publish_all_other)
  next
    case False
    with Cons.prems have "distinct (map fst d)" "(k, v) \<in> set d"
      by auto
    then show ?thesis
      by (simp add: publish_all_simps Cons.IH)
  qed
qed

lemma distinct_final_report:
  "distinct (map fst dcorr) \<Longrightarrow> distinct (map fst (final_report dcorr eA eB elst exch ind fdds mp2))"
  by (simp add: final_report_def distinct_dict_update distinct_update)

lemma keys_final_report_mp2:
  "fst ` set mp2 \<subseteq> fst ` set (final_report dcorr eA eB elst exch ind fdds mp2)"
  by (simp add: final_report_def keys_dict_update)

subsection \<open>The dispersion evaluators\<close>

lemma run_success_mp2:
  assumes "run_sapt_dft eng name kw s = Inr (w, s')"
  shows "[f \<leftarrow> calls (new_events s s').
            f = ''sapt_mp2_terms.df_mp2_fisapt_dispersion'' \<or>
            f = ''sapt_mp2_terms.df_mp2_sapt_dispersion''] =
           [if opt_get (options s) ''SAPT'' ''SAPT_DFT_MP2_DISP_ALG'' = OStr ''FISAPT''
            then ''sapt_mp2_terms.df_mp2_fisapt_dispersion''
            else ''sapt_mp2_terms.df_mp2_sapt_dispersion''] \<and>
         (\<exists>wA wB aux c mp2 data.
            (if opt_get (options s) ''SAPT'' ''SAPT_DFT_MP2_DISP_ALG'' = OStr ''FISAPT''
             then df_mp2_fisapt_dispersion eng wA (wfn_basisset wA) aux c = Inr mp2
             else df_mp2_sapt_dispersion eng w wA wB (wfn_basisset wA) aux c = Inr mp2) \<and>
            reports (new_events s s') = [data] \<and>
            fst ` set mp2 \<subseteq> fst ` set data)"
proof (cases "truthy (opt_get (options s) ''SAPT'' ''SAPT_DFT_DO_DHF'')")
  case True
  from assms True show ?thesis
  proof (rule run_success_with_aux, goal_cases)
    case (1 wa wb c' elst' exch' ind' e1 e2 e3 hvs wA wB c elst exch ind aux fdds mp2 vs)
    have "[f \<leftarrow> calls (new_events s s').
            f = ''sapt_mp2_terms.df_mp2_fisapt_dispersion'' \<or>
            f = ''sapt_mp2_terms.df_mp2_sapt_dispersion''] =
           [if opt_get (options s) ''SAPT'' ''SAPT_DFT_MP2_DISP_ALG'' = OStr ''FISAPT''
            then ''sapt_mp2_terms.df_mp2_fisapt_dispersion''
            else ''sapt_mp2_terms.df_mp2_sapt_dispersion'']"
      by (simp add: "1"(17) view_simps mp2_evaluator_def)
    moreover have "reports (new_events s s') =
        [final_report [(''Delta HF Correction'', hvs ''SAPT(DFT) Delta HF'')]
           (wfn_energy wA) (wfn_energy wB) elst exch ind fdds mp2]"
      by (simp add: "1"(17) view_simps)
    ultimately show ?case
      using "1"(15) keys_final_report_mp2 by blast
  qed
next
  case False
  from assms False show ?thesis
  proof (rule run_success_without_aux, goal_cases)
    case (1 wA wB c elst exch ind aux fdds mp2 vs)
    have "[f \<leftarrow> calls (new_events s s').
            f = ''sapt_mp2_terms.df_mp2_fisapt_dispersion'' \<or>
            f = ''sapt_mp2_terms.df_mp2_sapt_dispersion''] =
           [if opt_get (options s) ''SAPT'' ''SAPT_DFT_MP2_DISP_ALG'' = OStr ''FISAPT''
            then ''sapt_mp2_terms.df_mp2_fisapt_dispersion''
            else ''sapt_mp2_terms.df_mp2_sapt_dispersion'']"
      by (simp add: "1"(10) view_simps mp2_evaluator_def)
    moreover have "reports (new_events s s') =
        [final_report [] (wfn_energy wA) (wfn_energy wB) elst exch ind fdds mp2]"
      by (simp add: "1"(10) view_simps)
    ultimately show ?case
      using "1"(8) keys_final_report_mp2 by blast
  qed
qed

text \<open>
  C7. In every run that returns, exactly one of the two MP2 dispersion evaluators has been
  called: the FISAPT variant when \<open>SAPT_DFT_MP2_DISP_ALG\<close> equals \<open>"FISAPT"\<close>, the SAPT
  variant otherwise. What that evaluator returned has been merged into the report last, so
  every one of its labels is a label of the report; the other variant was not called and
  contributes nothing.
\<close>

theorem C7_one_dispersion_variant:
  assumes "run_sapt_dft eng name kw s = Inr (w, s')"
  shows "[f \<leftarrow> calls (new_events s s').
            f = ''sapt_mp2_terms.df_mp2_fisapt_dispersion'' \<or>
            f = ''sapt_mp2_terms.df_mp2_sapt_dispersion''] =
           [if opt_get (options s) ''SAPT'' ''SAPT_DFT_MP2_DISP_ALG'' = OStr ''FISAPT''
            then ''sapt_mp2_terms.df_mp2_fisapt_dispersion''
            else ''sapt_mp2_terms.df_mp2_sapt_dispersion''] \<and>
         (\<exists>wA wB aux c mp2 data.
            (if opt_get (options s) ''SAPT'' ''SAPT_DFT_MP2_DISP_ALG'' = OStr ''FISAPT''
             then df_mp2_fisapt_dispersion eng wA (wfn_basisset wA) aux c = Inr mp2
             else df_mp2_sapt_dispersion eng w wA wB (wfn_basisset wA) aux c = Inr mp2) \<and>
            reports (new_events s s') = [data] \<and>
            fst ` set mp2 \<subseteq> fst ` set data)"
  using assms by (rule run_success_mp2)

lemma demo_mp2_fields:
  "df_mp2_sapt_dispersion demo_engine dw wA wB primary aux cache = Inr [(''Disp20 (MP2)'', - 1)]"
  "df_mp2_fisapt_dispersion demo_engine wA primary aux cache = Inr [(''Disp20 (MP2, FISAPT)'', - 1)]"
  by (simp_all add: demo_engine_def)

theorem C7_one_dispersion_variant_witness:
  "succeeded (run_sapt_dft demo_engine ''sapt(dft)'' demo_kwargs demo_state) \<and>
   [f \<leftarrow> calls (new_events demo_state
            (final_state (run_sapt_dft demo_engine ''sapt(dft)'' demo_kwargs demo_state))).
      f = ''sapt_mp2_terms.df_mp2_fisapt_dispersion'' \<or>
      f = ''sapt_mp2_terms.df_mp2_sapt_dispersion''] =
     [''sapt_mp2_terms.df_mp2_sapt_dispersion''] \<and>
   (\<exists>data. reports (new_events demo_state
              (final_state (run_sapt_dft demo_engine ''sapt(dft)'' demo_kwargs demo_state))) = [data] \<and>
           ''Disp20 (MP2)'' \<in> fst ` set data)"
proof -
  from demo_run_succeeds obtain w s' where
    r: "run_sapt_dft demo_engine ''sapt(dft)'' demo_kwargs demo_state = Inr (w, s')"
    by (rule succeededE)
  from C7_one_dispersion_variant [OF r] show ?thesis
    by (auto simp add: r demo_simps demo_mp2_fields)
qed

section \<open>The claim about the shift of the monomers\<close>

lemma dft_monomer_A_failure:
  assumes "dft_monomer_A eng kw mA v data s = Inl (e, s')"
  shows "options s' = apply_shift v (options s) \<and>
         trace s' = trace s @ relabel_events (options s) ''dimer'' ''monomerA'' @
           (if kw_molecule kw = None
            then [ScfCall ''SAPT(DFT): DFT Monomer A'' mA
                    (if truthy v then v else opt_get_global (options s) ''DFT_GRAC_SHIFT'')]
            else [])"
  using assms
  by (cases s)
     (auto simp add: dft_monomer_A_def apply_shift_def action_simps core_simps opt_simps
        split: sum.split_asm if_split_asm)

lemma dft_monomer_B_failure:
  assumes "dft_monomer_B eng kw mB v data s = Inl (e, s')"
  shows "options s' = apply_shift v (options s) \<and>
         trace s' = trace s @ relabel_events (options s) ''monomerA'' ''monomerB'' @
           (if kw_molecule kw = None
            then [ScfCall ''SAPT(DFT): DFT Monomer B'' mB
                    (if truthy v then v else opt_get_global (options s) ''DFT_GRAC_SHIFT'')]
            else [])"
  using assms
  by (cases s)
     (auto simp add: dft_monomer_B_def apply_shift_def action_simps core_simps opt_simps
        split: sum.split_asm if_split_asm)

lemma dft_monomer_A_shift:
  "opt_get_global (options (final_state (dft_monomer_A eng kw mA v data s))) ''DFT_GRAC_SHIFT'' =
     (if succeeded (dft_monomer_A eng kw mA v data s) then ONum 0
      else if truthy v then v else opt_get_global (options s) ''DFT_GRAC_SHIFT'')"
  "shifts_seen (new_events s (final_state (dft_monomer_A eng kw mA v data s))) =
     (if kw_molecule kw = None
      then [(''SAPT(DFT): DFT Monomer A'',
             if truthy v then v else opt_get_global (options s) ''DFT_GRAC_SHIFT'')]
      else [])"
proof -
  show "opt_get_global (options (final_state (dft_monomer_A eng kw mA v data s))) ''DFT_GRAC_SHIFT'' =
     (if succeeded (dft_monomer_A eng kw mA v data s) then ONum 0
      else if truthy v then v else opt_get_global (options s) ''DFT_GRAC_SHIFT'')"
  proof (cases "dft_monomer_A eng kw mA v data s")
    case (Inl es)
    then obtain e s' where r: "dft_monomer_A eng kw mA v data s = Inl (e, s')"
      by (cases es) simp
    from dft_monomer_A_failure [OF r] show ?thesis
      by (simp add: r outcome_Inl opt_simps)
  next
    case (Inr as)
    then obtain w data' s' where r: "dft_monomer_A eng kw mA v data s = Inr ((w, data'), s')"
      by (cases as) auto
    from dft_monomer_A_success [OF r] show ?thesis
      by (simp add: r outcome_Inr opt_simps)
  qed
  show "shifts_seen (new_events s (final_state (dft_monomer_A eng kw mA v data s))) =
     (if kw_molecule kw = None
      then [(''SAPT(DFT): DFT Monomer A'',
             if truthy v then v else opt_get_global (options s) ''DFT_GRAC_SHIFT'')]
      else [])"
  proof (cases "dft_monomer_A eng kw mA v data s")
    case (Inl es)
    then obtain e s' where r: "dft_monomer_A eng kw mA v data s = Inl (e, s')"
      by (cases es) simp
    from dft_monomer_A_failure [OF r] show ?thesis
      by (simp add: r outcome_Inl new_events_def view_simps)
  next
    case (Inr as)
    then obtain w data' s' where r: "dft_monomer_A eng kw mA v data s = Inr ((w, data'), s')"
      by (cases as) auto
    from dft_monomer_A_success [OF r] show ?thesis
      by (simp add: r outcome_Inr new_events_def view_simps)
  qed
qed

lemma dft_monomer_B_shift:
  "opt_get_global (options (final_state (dft_monomer_B eng kw mB v data s))) ''DFT_GRAC_SHIFT'' =
     (if succeeded (dft_monomer_B eng kw mB v data s) then ONum 0
      else if truthy v then v else opt_get_global (options s) ''DFT_GRAC_SHIFT'')"
  "shifts_seen (new_events s (final_state (dft_monomer_B eng kw mB v data s))) =
     (if kw_molecule kw = None
      then [(''SAPT(DFT): DFT Monomer B'',
             if truthy v then v else opt_get_global (options s) ''DFT_GRAC_SHIFT'')]
      else [])"
proof -
  show "opt_get_global (options (final_state (dft_monomer_B eng kw mB v data s))) ''DFT_GRAC_SHIFT'' =
     (if succeeded (dft_monomer_B eng kw mB v data s) then ONum 0
      else if truthy v then v else opt_get_global (options s) ''DFT_GRAC_SHIFT'')"
  proof (cases "dft_monomer_B eng kw mB v data s")
    case (Inl es)
    then obtain e s' where r: "dft_monomer_B eng kw mB v data s = Inl (e, s')"
      by (cases es) simp
    from dft_monomer_B_failure [OF r] show ?thesis
      by (simp add: r outcome_Inl opt_simps)
  next
    case (Inr as)
    then obtain w data' s' where r: "dft_monomer_B eng kw mB v data s = Inr ((w, data'), s')"
      by (cases as) auto
    from dft_monomer_B_success [OF r] show ?thesis
      by (simp add: r outcome_Inr opt_simps)
  qed
  show "shifts_seen (new_events s (final_state (dft_monomer_B eng kw mB v data s))) =
     (if kw_molecule kw = None
      then [(''SAPT(DFT): DFT Monomer B'',
             if truthy v then v else opt_get_global (options s) ''DFT_GRAC_SHIFT'')]
      else [])"
  proof (cases "dft_monomer_B eng kw mB v data s")
    case (Inl es)
    then obtain e s' where r: "dft_monomer_B eng kw mB v data s = Inl (e, s')"
      by (cases es) simp
    from dft_monomer_B_failure [OF r] show ?thesis
      by (simp add: r outcome_Inl new_events_def view_simps)
  next
    case (Inr as)
    then obtain w data' s' where r: "dft_monomer_B eng kw mB v data s = Inr ((w, data'), s')"
      by (cases as) auto
    from dft_monomer_B_success [OF r] show ?thesis
      by (simp add: r outcome_Inr new_events_def view_simps)
  qed
qed

lemma run_success_shifts:
  assumes "run_sapt_dft eng name kw s = Inr (w, s')"
  shows "[p \<leftarrow> shifts_seen (new_events s s').
            fst p = ''SAPT(DFT): DFT Monomer A'' \<or> fst p = ''SAPT(DFT): DFT Monomer B''] =
           [(''SAPT(DFT): DFT Monomer A'',
             if truthy (opt_get (options s) ''SAPT'' ''SAPT_DFT_GRAC_SHIFT_A'')
             then opt_get (options s) ''SAPT'' ''SAPT_DFT_GRAC_SHIFT_A''
             else opt_get_global (options s) ''DFT_GRAC_SHIFT''),
            (''SAPT(DFT): DFT Monomer B'',
             if truthy (opt_get (options s) ''SAPT'' ''SAPT_DFT_GRAC_SHIFT_B'')
             then opt_get (options s) ''SAPT'' ''SAPT_DFT_GRAC_SHIFT_B''
             else ONum 0)] \<and>
         opt_get_global (options s') ''DFT_GRAC_SHIFT'' = ONum 0"
proof (cases "truthy (opt_get (options s) ''SAPT'' ''SAPT_DFT_DO_DHF'')")
  case True
  from assms True show ?thesis
  proof (rule run_success_with_aux, goal_cases)
    case (1 wa wb c' elst' exch' ind' e1 e2 e3 hvs wA wB c elst exch ind aux fdds mp2 vs)
    show ?case
      by (simp add: "1"(17) run_success_options [OF assms] view_simps final_options_def opt_simps)
  qed
next
  case False
  from assms False show ?thesis
  proof (rule run_success_without_aux, goal_cases)
    case (1 wA wB c elst exch ind aux fdds mp2 vs)
    show ?case
      by (simp add: "1"(10) run_success_options [OF assms] view_simps final_options_def opt_simps)
  qed
qed

text \<open>
  C9, counterexample. The SCF of monomer A fails in the primary pass: the run raises, and
  the global \<open>DFT_GRAC_SHIFT\<close> stays at the shift of monomer A, 0.25.
\<close>

theorem C9_counterexample:
  "\<not> succeeded (run_sapt_dft demo_engine_failing ''sapt(dft)'' demo_kwargs demo_state_no_dhf) \<and>
   opt_get_global
     (options (final_state (run_sapt_dft demo_engine_failing ''sapt(dft)'' demo_kwargs demo_state_no_dhf)))
     ''DFT_GRAC_SHIFT'' = ONum (1 / 4)"
  by (simp add: eval_simps apply_shift_def outcome_Inl)

text \<open>
  C9, as amended. In the primary pass the shift of a monomer is written to the global
  \<open>DFT_GRAC_SHIFT\<close> before that monomer's sub-calculation when it is non-zero, and
  \<open>DFT_GRAC_SHIFT\<close> is set to 0.0 right after the sub-calculation has returned, also when
  no shift was set. When the sub-calculation raises, the block is left at once: no reset
  takes place and \<open>DFT_GRAC_SHIFT\<close> keeps the value the sub-calculation saw. So, in a run
  that returns, monomer A sees its shift (or what was in force), monomer B sees its shift
  (or 0.0), and the run ends with 0.0.
\<close>

theorem C9_shift_override:
  "opt_get_global (options (final_state (dft_monomer_A eng kw mA v data s))) ''DFT_GRAC_SHIFT'' =
     (if succeeded (dft_monomer_A eng kw mA v data s) then ONum 0
      else if truthy v then v else opt_get_global (options s) ''DFT_GRAC_SHIFT'') \<and>
   shifts_seen (new_events s (final_state (dft_monomer_A eng kw mA v data s))) =
     (if kw_molecule kw = None
      then [(''SAPT(DFT): DFT Monomer A'',
             if truthy v then v else opt_get_global (options s) ''DFT_GRAC_SHIFT'')]
      else []) \<and>
   opt_get_global (options (final_state (dft_monomer_B eng kw mB v data s))) ''DFT_GRAC_SHIFT'' =
     (if succeeded (dft_monomer_B eng kw mB v data s) then ONum 0
      else if truthy v then v else opt_get_global (options s) ''DFT_GRAC_SHIFT'') \<and>
   shifts_seen (new_events s (final_state (dft_monomer_B eng kw mB v data s))) =
     (if kw_molecule kw = None
      then [(''SAPT(DFT): DFT Monomer B'',
             if truthy v then v else opt_get_global (options s) ''DFT_GRAC_SHIFT'')]
      else []) \<and>
   (run_sapt_dft engR name kwR sR = Inr (w, s') \<longrightarrow>
      [p \<leftarrow> shifts_seen (new_events sR s').
          fst p = ''SAPT(DFT): DFT Monomer A'' \<or> fst p = ''SAPT(DFT): DFT Monomer B''] =
        [(''SAPT(DFT): DFT Monomer A'',
          if truthy (opt_get (options sR) ''SAPT'' ''SAPT_DFT_GRAC_SHIFT_A'')
          then opt_get (options sR) ''SAPT'' ''SAPT_DFT_GRAC_SHIFT_A''
          else opt_get_global (options sR) ''DFT_GRAC_SHIFT''),
         (''SAPT(DFT): DFT Monomer B'',
          if truthy (opt_get (options sR) ''SAPT'' ''SAPT_DFT_GRAC_SHIFT_B'')
          then opt_get (options sR) ''SAPT'' ''SAPT_DFT_GRAC_SHIFT_B''
          else ONum 0)] \<and>
      opt_get_global (options s') ''DFT_GRAC_SHIFT'' = ONum 0)"
  apply (rule conjI, rule dft_monomer_A_shift(1))
  apply (rule conjI, rule dft_monomer_A_shift(2))
  apply (rule conjI, rule dft_monomer_B_shift(1))
  apply (rule conjI, rule dft_monomer_B_shift(2))
  apply (rule impI, erule run_success_shifts)
  done

theorem C9_shift_override_witness:
  "succeeded (run_sapt_dft demo_engine ''sapt(dft)'' demo_kwargs demo_state) \<and>
   [p \<leftarrow> shifts_seen (new_events demo_state
            (final_state (run_sapt_dft demo_engine ''sapt(dft)'' demo_kwargs demo_state))).
      fst p = ''SAPT(DFT): DFT Monomer A'' \<or> fst p = ''SAPT(DFT): DFT Monomer B''] =
     [(''SAPT(DFT): DFT Monomer A'', ONum (1 / 4)), (''SAPT(DFT): DFT Monomer B'', ONum (1 / 8))] \<and>
   opt_get_global
     (options (final_state (run_sapt_dft demo_engine ''sapt(dft)'' demo_kwargs demo_state)))
     ''DFT_GRAC_SHIFT'' = ONum 0 \<and>
   \<not> succeeded (dft_monomer_A demo_engine_failing demo_kwargs (monomerA_of demo_dimer)
     (ONum (1 / 4)) [] demo_state) \<and>
   opt_get_global
     (options (final_state (dft_monomer_A demo_engine_failing demo_kwargs (monomerA_of demo_dimer)
        (ONum (1 / 4)) [] demo_state)))
     ''DFT_GRAC_SHIFT'' = ONum (1 / 4)"
proof -
  from demo_run_succeeds obtain w s' where
    r: "run_sapt_dft demo_engine ''sapt(dft)'' demo_kwargs demo_state = Inr (w, s')"
    by (rule succeededE)
  have f: "\<not> succeeded (dft_monomer_A demo_engine_failing demo_kwargs (monomerA_of demo_dimer)
     (ONum (1 / 4)) [] demo_state)"
    by (simp add: dft_monomer_A_def action_simps core_simps demo_engine_failing_def demo_kwargs_def
          outcome_Inl)
  from C9_shift_override [where eng = demo_engine_failing and kw = demo_kwargs
      and mA = "monomerA_of demo_dimer" and v = "ONum (1 / 4)" and data = "[]" and s = demo_state
      and engR = demo_engine and name = "''sapt(dft)''" and kwR = demo_kwargs and sR = demo_state
      and w = w and s' = s'] r f
  show ?thesis
    by (simp add: demo_simps)
qed

section \<open>The claim about the default algorithm and the guard of the relabeling\<close>

subsection \<open>Properties kept on every path\<close>

lemma keepsD: "keeps P m \<Longrightarrow> P s \<Longrightarrow> P (final_state (m s))"
  by (simp add: keeps_def)

lemma keeps_bnd:
  assumes m: "keeps P m" and f: "\<And>a. keeps P (f a)"
  shows "keeps P (bnd m f)"
  unfolding keeps_def
proof (intro allI impI)
  fix s
  assume p: "P s"
  from keepsD [OF m p] have pm: "P (final_state (m s))" .
  show "P (final_state (bnd m f s))"
  proof (cases "m s")
    case (Inl es)
    with pm show ?thesis
      by (simp add: bnd_def final_state_def)
  next
    case (Inr as)
    obtain a s1 where as: "as = (a, s1)"
      by (cases as)
    from pm Inr as have "P s1"
      by (simp add: final_state_def)
    from keepsD [OF f this] show ?thesis
      by (simp add: bnd_def Inr as)
  qed
qed

lemma keeps_ret: "keeps P (ret a)"
  by (simp add: keeps_def ret_def final_state_def)

lemma keeps_raise: "keeps P (raise e)"
  by (simp add: keeps_def raise_def final_state_def)

lemma keeps_get: "keeps P (get g)"
  by (simp add: keeps_def get_def final_state_def)

lemma keeps_lift: "keeps P (lift r)"
  by (simp add: keeps_def lift_def final_state_def split: sum.splits)

lemma keeps_upd: "(\<And>s. P s \<Longrightarrow> P (g s)) \<Longrightarrow> keeps P (upd g)"
  by (simp add: keeps_def upd_def final_state_def)

lemma keeps_when: "keeps P m \<Longrightarrow> keeps P (py_when b m)"
  by (simp add: py_when_def keeps_ret)

lemma keeps_if: "keeps P m \<Longrightarrow> keeps P n \<Longrightarrow> keeps P (if b then m else n)"
  by (cases b) simp_all

lemma keeps_case_option:
  "keeps P a \<Longrightarrow> (\<And>y. keeps P (b y)) \<Longrightarrow> keeps P (case x of None \<Rightarrow> a | Some y \<Rightarrow> b y)"
  by (simp split: option.splits)

lemma keeps_case_prod: "(\<And>a b. keeps P (f a b)) \<Longrightarrow> keeps P (case_prod f x)"
  by (simp split: prod.splits)

lemma keeps_set_variables:
  "(\<And>k v s. P s \<Longrightarrow> P (s\<lparr>variables := (variables s)(k := v)\<rparr>)) \<Longrightarrow> keeps P (set_variables d)"
  by (induction d) (auto intro!: keeps_bnd keeps_ret keeps_upd simp add: set_variable_def)

lemma keeps_when_df_not_df:
  "keeps (\<lambda>s. opt_get (options s) ''SCF'' ''SCF_TYPE'' \<noteq> OStr ''DF'' \<and> Q s) (when_df m)"
  by (simp add: keeps_def when_df_def get_option_def py_when_def action_simps final_state_def)

lemmas keeps_intros =
  keeps_bnd keeps_ret keeps_raise keeps_get keeps_lift keeps_upd keeps_when keeps_if
  keeps_case_option keeps_case_prod keeps_set_variables

lemmas core_defs =
  call_scf_helper_def call_ext_def call_hf_summary_def call_dft_summary_def dict_get_def
  log_event_def get_option_def get_global_option_def has_option_changed_def set_local_option_def
  set_global_option_def get_variable_def set_variable_def set_default_namespace_def

lemma sapt_passes_keeps_no_relabel:
  "keeps (\<lambda>s. opt_get (options s) ''SCF'' ''SCF_TYPE'' \<noteq> OStr ''DF'' \<and>
              (n \<le> length (trace s) \<and> relabels (drop n (trace s)) = []))
     (sapt_passes eng kw d mA mB a b dhf data)"
  unfolding stage_defs core_defs
  by (intro keeps_intros keeps_when_df_not_df) (simp_all add: opt_simps relabels_def)

lemma sapt_passes_keeps_scf_type:
  "keeps (\<lambda>s. options s (Local ''SCF'', ''SCF_TYPE'') = le \<and> options s (Global, ''SCF_TYPE'') = ge)
     (sapt_passes eng kw d mA mB a b dhf data)"
  unfolding stage_defs core_defs when_df_def change_file_namespace_def log_event_def
  by (intro keeps_intros) (simp_all add: opt_set_global_def opt_set_local_def)

end
